theory Spec2Isabelle
  imports Main
begin

section \<open>Strings, numbers and JSON values of the runtime\<close>

text \<open>
  A JavaScript string is a HOL \<open>string\<close>: the list of the bytes of its UTF-8 text, so
  ASCII text (node ids, node types, error messages, the clarification patterns) is
  character for character the text of the source. JavaScript numbers are modelled by
  \<open>int\<close>: the functions below only count, subtract time stamps and print exit
  codes. Lengths and \<open>substring\<close> count the characters of this list. \<open>undefined\<close> and
  \<open>null\<close> of an optional field are \<open>None\<close>.
\<close>

definition digit_char :: "nat \<Rightarrow> char" where
  "digit_char d = ''0123456789abcdef'' ! d"

function show_nat :: "nat \<Rightarrow> string" where
  "show_nat n = (if n < 10 then [digit_char n] else show_nat (n div 10) @ [digit_char (n mod 10)])"
  by pat_completeness auto
termination
  by (relation "measure id") auto

declare show_nat.simps [simp del]

text \<open>Template literal \<open>${n}\<close> and \<open>String(n)\<close> for an integral number.\<close>

definition show_int :: "int \<Rightarrow> string" where
  "show_int i = (if i < 0 then ''-'' @ show_nat (nat (- i)) else show_nat (nat i))"

text \<open>\<open>Array.prototype.join\<close> on an array of strings.\<close>

fun join :: "string \<Rightarrow> string list \<Rightarrow> string" where
  "join sep [] = []"
| "join sep [x] = x"
| "join sep (x # y # ys) = x @ sep @ join sep (y # ys)"

text \<open>
  A JSON value as \<open>JSON.parse\<close> yields it and as a node's \<open>data\<close> payload holds it. An
  object is the list of its own properties in enumeration order (keys distinct).
\<close>

datatype json =
    JNull
  | JBool bool
  | JNum int
  | JStr string
  | JArr "json list"
  | JObj "(string \<times> json) list"

text \<open>\<open>QuoteJSONString\<close>: the escapes of \<open>JSON.stringify\<close> for one character.\<close>

definition escape_char :: "char \<Rightarrow> string" where
  "escape_char c =
     (if c = CHR 0x22 then [CHR 0x5C, CHR 0x22]
      else if c = CHR 0x5C then [CHR 0x5C, CHR 0x5C]
      else if c = CHR 0x08 then [CHR 0x5C, CHR ''b'']
      else if c = CHR 0x0C then [CHR 0x5C, CHR ''f'']
      else if c = CHR 0x0A then [CHR 0x5C, CHR ''n'']
      else if c = CHR 0x0D then [CHR 0x5C, CHR ''r'']
      else if c = CHR 0x09 then [CHR 0x5C, CHR ''t'']
      else if (of_char c :: nat) < 32
        then [CHR 0x5C, CHR ''u'', CHR ''0'', CHR ''0'',
              digit_char ((of_char c :: nat) div 16), digit_char ((of_char c :: nat) mod 16)]
      else [c])"

definition quote_json :: "string \<Rightarrow> string" where
  "quote_json s = [CHR 0x22] @ concat (map escape_char s) @ [CHR 0x22]"

fun stringify_value :: "json \<Rightarrow> string"
  and stringify_elements :: "json list \<Rightarrow> string list"
  and stringify_members :: "(string \<times> json) list \<Rightarrow> string list" where
  "stringify_value JNull = ''null''"
| "stringify_value (JBool b) = (if b then ''true'' else ''false'')"
| "stringify_value (JNum n) = show_int n"
| "stringify_value (JStr s) = quote_json s"
| "stringify_value (JArr xs) = ''['' @ join '','' (stringify_elements xs) @ '']''"
| "stringify_value (JObj kvs) = ''{'' @ join '','' (stringify_members kvs) @ ''}''"
| "stringify_elements [] = []"
| "stringify_elements (x # xs) = stringify_value x # stringify_elements xs"
| "stringify_members [] = []"
| "stringify_members ((k, v) # kvs) =
     (quote_json k @ '':'' @ stringify_value v) # stringify_members kvs"

text \<open>\<open>JSON.stringify(x)\<close>: \<open>undefined\<close> for \<open>undefined\<close>, the text otherwise.\<close>

definition JSON_stringify :: "json option \<Rightarrow> string option" where
  "JSON_stringify x = map_option stringify_value x"

text \<open>Property read \<open>o[k]\<close> on a JSON value: \<open>undefined\<close> unless an object has the key.\<close>

fun json_get :: "json \<Rightarrow> string \<Rightarrow> json option" where
  "json_get (JObj kvs) k = map_of kvs k"
| "json_get _ k = None"

section \<open>Map and Set of the runtime\<close>

text \<open>
  A JavaScript \<open>Map\<close> iterates in insertion order: \<open>set\<close> on a key already present
  replaces the value in place, on a new key it appends the entry.
\<close>

fun map_set :: "('k \<times> 'v) list \<Rightarrow> 'k \<Rightarrow> 'v \<Rightarrow> ('k \<times> 'v) list" where
  "map_set [] k v = [(k, v)]"
| "map_set ((k', v') # m) k v =
     (if k' = k then (k, v) # m else (k', v') # map_set m k v)"

definition map_has :: "('k \<times> 'v) list \<Rightarrow> 'k \<Rightarrow> bool" where
  "map_has m k = (map_of m k \<noteq> None)"

definition map_get :: "('k \<times> 'v) list \<Rightarrow> 'k \<Rightarrow> 'v option" where
  "map_get m k = map_of m k"

text \<open>\<open>new Set(xs)\<close>: the distinct elements in the order of their first occurrence.\<close>

definition set_add :: "'a list \<Rightarrow> 'a \<Rightarrow> 'a list" where
  "set_add s x = (if x \<in> set s then s else s @ [x])"

definition new_Set :: "'a list \<Rightarrow> 'a list" where
  "new_Set xs = foldl set_add [] xs"

definition set_has :: "'a list \<Rightarrow> 'a \<Rightarrow> bool" where
  "set_has s x = (x \<in> set s)"

section \<open>Workflow diff engine (workflow-diff)\<close>

text \<open>
  The canvas side: a React Flow \<open>Node\<close> (\<open>type\<close> is optional) and \<open>Edge\<close> (the handles
  are \<open>string | null | undefined\<close>). The position stands for the fields of a node that
  the diff never reads.
\<close>

record rf_node =
  node_id :: string
  node_type :: "string option"
  node_position :: "int \<times> int"
  node_data :: "json option"

record rf_edge =
  edge_source :: string
  edge_sourceHandle :: "string option"
  edge_target :: string
  edge_targetHandle :: "string option"

text \<open>The proposed side: the nodes and connections of a \<open>Workflow\<close>.\<close>

record wf_node =
  wn_id :: string
  wn_type :: string
  wn_name :: string
  wn_position :: "int \<times> int"
  wn_data :: "json option"

record wf_connection =
  conn_id :: string
  conn_from :: string
  conn_to :: string
  conn_fromPort :: string
  conn_toPort :: string

record workflow =
  wf_id :: string
  wf_name :: string
  wf_version :: string
  wf_nodes :: "wf_node list"
  wf_connections :: "wf_connection list"

record diff_node =
  dn_id :: string
  dn_name :: string
  dn_type :: string

record WorkflowDiffSummary =
  nameChange :: "(string \<times> string) option"
  addedNodes :: "diff_node list"
  removedNodes :: "diff_node list"
  modifiedNodes :: "diff_node list"
  addedConnections :: nat
  removedConnections :: nat
  totalChanges :: nat
  isNewWorkflow :: bool

text \<open>
  \<open>data?.description || id\<close>: the description when the payload is an object with a
  non-empty string under \<open>description\<close> (the source types it \<open>string\<close>), the id otherwise.
\<close>

definition description_or :: "json option \<Rightarrow> string \<Rightarrow> string" where
  "description_or d ident =
     (case d of
        None \<Rightarrow> ident
      | Some j \<Rightarrow>
          (case json_get j ''description'' of
             Some (JStr s) \<Rightarrow> (if s = [] then ident else s)
           | _ \<Rightarrow> ident))"

definition getNodeName :: "rf_node \<Rightarrow> string" where
  "getNodeName node = description_or (node_data node) (node_id node)"

text \<open>The separator of an edge key is the arrow U+2192, here its three UTF-8 bytes.\<close>

definition arrow :: string where
  "arrow = [CHR 0xE2, CHR 0x86, CHR 0x92]"

definition nullish_or :: "string option \<Rightarrow> string \<Rightarrow> string" where
  "nullish_or h d = (case h of None \<Rightarrow> d | Some s \<Rightarrow> s)"

definition makeEdgeKey :: "rf_edge \<Rightarrow> string" where
  "makeEdgeKey e =
     edge_source e @ '':'' @ nullish_or (edge_sourceHandle e) '''' @ arrow @
     edge_target e @ '':'' @ nullish_or (edge_targetHandle e) ''''"

definition makeWorkflowEdgeKey :: "wf_connection \<Rightarrow> string" where
  "makeWorkflowEdgeKey c =
     conn_from c @ '':'' @ conn_fromPort c @ arrow @ conn_to c @ '':'' @ conn_toPort c"

text \<open>The entry stored per proposed node: id, type, display name, serialized data.\<close>

record incoming_entry =
  ie_id :: string
  ie_type :: string
  ie_name :: string
  ie_data :: "string option"

definition incoming_entry_of :: "wf_node \<Rightarrow> incoming_entry" where
  "incoming_entry_of node =
     \<lparr>ie_id = wn_id node, ie_type = wn_type node,
      ie_name = description_or (wn_data node) (wn_id node),
      ie_data = JSON_stringify (wn_data node)\<rparr>"

definition build_currentNodeMap :: "rf_node list \<Rightarrow> (string \<times> rf_node) list" where
  "build_currentNodeMap currentNodes =
     foldl (\<lambda>m node. map_set m (node_id node) node) [] currentNodes"

definition build_incomingNodeMap :: "wf_node list \<Rightarrow> (string \<times> incoming_entry) list" where
  "build_incomingNodeMap nodes =
     foldl (\<lambda>m node. map_set m (wn_id node) (incoming_entry_of node)) [] nodes"

text \<open>\<open>node.type || 'unknown'\<close>: an absent or empty type is falsy.\<close>

definition type_or_unknown :: "string option \<Rightarrow> string" where
  "type_or_unknown t = (case t of None \<Rightarrow> ''unknown'' | Some s \<Rightarrow> (if s = [] then ''unknown'' else s))"

definition computeWorkflowDiff ::
  "rf_node list \<Rightarrow> rf_edge list \<Rightarrow> string \<Rightarrow> workflow \<Rightarrow> WorkflowDiffSummary" where
  "computeWorkflowDiff currentNodes currentEdges currentName incomingWorkflow =
     (let isNew =
            (length currentNodes \<le> 2 \<and>
             list_all (\<lambda>n. node_type n = Some ''start'' \<or> node_type n = Some ''end'') currentNodes \<and>
             length currentEdges = 0);
          nameCh =
            (if currentName \<noteq> wf_name incomingWorkflow
             then Some (currentName, wf_name incomingWorkflow) else None);
          currentNodeMap = build_currentNodeMap currentNodes;
          incomingNodeMap = build_incomingNodeMap (wf_nodes incomingWorkflow);
          added =
            map (\<lambda>(i, node). \<lparr>dn_id = i, dn_name = ie_name node, dn_type = ie_type node\<rparr>)
              (filter (\<lambda>(i, node). \<not> map_has currentNodeMap i) incomingNodeMap);
          removed =
            map (\<lambda>(i, node). \<lparr>dn_id = i, dn_name = getNodeName node,
                                dn_type = type_or_unknown (node_type node)\<rparr>)
              (filter (\<lambda>(i, node). \<not> map_has incomingNodeMap i) currentNodeMap);
          modified =
            map (\<lambda>(i, incomingNode).
                   \<lparr>dn_id = i, dn_name = ie_name incomingNode, dn_type = ie_type incomingNode\<rparr>)
              (filter (\<lambda>(i, incomingNode).
                         (case map_get currentNodeMap i of
                            None \<Rightarrow> False
                          | Some currentNode \<Rightarrow>
                              JSON_stringify (node_data currentNode) \<noteq> ie_data incomingNode))
                 incomingNodeMap);
          currentEdgeKeys = new_Set (map makeEdgeKey currentEdges);
          incomingEdgeKeys = new_Set (map makeWorkflowEdgeKey (wf_connections incomingWorkflow));
          addedConns = length (filter (\<lambda>key. \<not> set_has currentEdgeKeys key) incomingEdgeKeys);
          removedConns = length (filter (\<lambda>key. \<not> set_has incomingEdgeKeys key) currentEdgeKeys)
      in \<lparr>nameChange = nameCh,
          addedNodes = added,
          removedNodes = removed,
          modifiedNodes = modified,
          addedConnections = addedConns,
          removedConnections = removedConns,
          totalChanges =
            (if nameCh \<noteq> None then 1 else 0) + length added + length removed +
            length modified + addedConns + removedConns,
          isNewWorkflow = isNew\<rparr>)"
section \<open>Process runner (claude-code-service)\<close>

text \<open>
  \<open>String.prototype.trim\<close> and the class \<open>\s\<close>, on the ASCII white space (tab, line
  feed, vertical tab, form feed, carriage return, space); the white space of ECMAScript
  beyond ASCII is ordinary text here.
\<close>

definition is_space :: "char \<Rightarrow> bool" where
  "is_space c = (c \<in> set [CHR 0x09, CHR 0x0A, CHR 0x0B, CHR 0x0C, CHR 0x0D, CHR 0x20])"

definition trim :: "string \<Rightarrow> string" where
  "trim s = rev (dropWhile is_space (rev (dropWhile is_space s)))"

datatype error_code =
    COMMAND_NOT_FOUND
  | TIMEOUT
  | PARSE_ERROR
  | VALIDATION_ERROR
  | PROHIBITED_NODE_TYPE
  | UNKNOWN_ERROR

record cli_error =
  err_code :: error_code
  err_message :: string
  err_details :: "string option"

record ClaudeCodeExecutionResult =
  res_success :: bool
  res_output :: "string option"
  res_error :: "cli_error option"
  res_executionTimeMs :: int

text \<open>
  A \<open>ChildProcess\<close> object of the runtime, as far as the service uses it: \<open>kill(sig)\<close>
  delivers the signal and sets \<open>killed\<close> when the process still has its handle, and does
  nothing otherwise. Objects live in a store indexed by references, since the registry and
  the handlers of an attempt share them.
\<close>

datatype signal = SIGTERM | SIGKILL

record child_process =
  cp_pid :: "nat option"
  cp_running :: bool
  cp_killed :: bool
  cp_signals :: "signal list"

definition kill :: "signal \<Rightarrow> child_process \<Rightarrow> child_process" where
  "kill sig p =
     (if cp_running p then p\<lparr>cp_killed := True, cp_signals := cp_signals p @ [sig]\<rparr> else p)"

type_synonym proc_ref = nat

record active_entry =
  ae_process :: proc_ref
  ae_startTime :: int

datatype log_level = INFO | WARN | ERROR

record log_entry =
  log_level :: log_level
  log_message :: string
  log_data :: "(string \<times> json option) list"

text \<open>A callback armed by \<open>setTimeout\<close> in a cancel function: its delay, the process it
  closes over and the warning it logs.\<close>

record kill_timer =
  kt_delay :: int
  kt_process :: proc_ref
  kt_warning :: string

text \<open>
  The module state: the registry \<open>activeProcesses\<close> (a \<open>Map\<close>), the store of process
  objects, the pending force-kill timers in the order they were armed, and what was logged.
\<close>

record world =
  activeProcesses :: "(string \<times> active_entry) list"
  processes :: "proc_ref \<Rightarrow> child_process"
  kill_timers :: "kill_timer list"
  logs :: "log_entry list"

definition map_delete :: "('k \<times> 'v) list \<Rightarrow> 'k \<Rightarrow> ('k \<times> 'v) list" where
  "map_delete m k = filter (\<lambda>(k', v). k' \<noteq> k) m"

definition log :: "log_level \<Rightarrow> string \<Rightarrow> (string \<times> json option) list \<Rightarrow> world \<Rightarrow> world" where
  "log lv msg dat w = w\<lparr>logs := logs w @ [\<lparr>log_level = lv, log_message = msg, log_data = dat\<rparr>]\<rparr>"

definition process_kill :: "proc_ref \<Rightarrow> signal \<Rightarrow> world \<Rightarrow> world" where
  "process_kill r sig w = w\<lparr>processes := (processes w)(r := kill sig (processes w r))\<rparr>"

definition pid_json :: "child_process \<Rightarrow> json option" where
  "pid_json p = map_option (\<lambda>n. JNum (int n)) (cp_pid p)"

text \<open>\<open>if (requestId) { ... }\<close>: an absent or empty request id is falsy.\<close>

definition if_requestId :: "string option \<Rightarrow> (string \<Rightarrow> world \<Rightarrow> world) \<Rightarrow> world \<Rightarrow> world" where
  "if_requestId requestId f w =
     (case requestId of
        None \<Rightarrow> w
      | Some r \<Rightarrow> (if r = [] then w else f r w))"

text \<open>
  One call of \<open>executeClaudeCodeCLI\<close>: the variables its closures share. \<open>at_resolved\<close>
  lists the calls of \<open>resolve\<close> in order; the promise settles with the first of them.
\<close>

record attempt =
  at_requestId :: "string option"
  at_timeoutMs :: int
  at_startTime :: int
  at_process :: proc_ref
  at_stdout :: string
  at_stderr :: string
  at_timedOut :: bool
  at_timer_armed :: bool
  at_resolved :: "ClaudeCodeExecutionResult list"

definition resolve :: "ClaudeCodeExecutionResult \<Rightarrow> attempt \<Rightarrow> attempt" where
  "resolve r a = a\<lparr>at_resolved := at_resolved a @ [r]\<rparr>"

definition promise_value :: "attempt \<Rightarrow> ClaudeCodeExecutionResult option" where
  "promise_value a = (case at_resolved a of [] \<Rightarrow> None | r # _ \<Rightarrow> Some r)"

text \<open>
  The synchronous part of \<open>executeClaudeCodeCLI\<close>: \<open>spawn\<close> yields the process object
  \<open>child\<close> at the reference \<open>ref\<close>, the call registers it under a truthy request id and
  arms the timeout. \<open>now\<close> is \<open>Date.now()\<close>, \<open>cwd\<close> is \<open>process.cwd()\<close>.
\<close>

definition executeClaudeCodeCLI_start ::
  "string \<Rightarrow> int \<Rightarrow> string option \<Rightarrow> string option \<Rightarrow> int \<Rightarrow> string \<Rightarrow> proc_ref \<Rightarrow>
   child_process \<Rightarrow> world \<Rightarrow> attempt \<times> world" where
  "executeClaudeCodeCLI_start prompt timeoutMs requestId workingDirectory now cwd ref child w =
     (let w1 = log INFO ''Starting Claude Code CLI execution''
                 [(''promptLength'', Some (JNum (int (length prompt)))),
                  (''timeoutMs'', Some (JNum timeoutMs)),
                  (''cwd'', Some (JStr (nullish_or workingDirectory cwd)))] w;
          w2 = w1\<lparr>processes := (processes w1)(ref := child)\<rparr>;
          w3 = if_requestId requestId
                 (\<lambda>r v. log INFO (''Registered active process for requestId: '' @ r)
                          [(''pid'', pid_json child)]
                          (v\<lparr>activeProcesses :=
                               map_set (activeProcesses v) r
                                 \<lparr>ae_process = ref, ae_startTime = now\<rparr>\<rparr>)) w2
      in (\<lparr>at_requestId = requestId, at_timeoutMs = timeoutMs, at_startTime = now,
           at_process = ref, at_stdout = [], at_stderr = [], at_timedOut = False,
           at_timer_armed = True, at_resolved = []\<rparr>, w3))"

text \<open>The callback of the timeout.\<close>

definition on_timeout :: "int \<Rightarrow> attempt \<times> world \<Rightarrow> attempt \<times> world" where
  "on_timeout now aw =
     (let a = fst aw; w = snd aw;
          a1 = a\<lparr>at_timedOut := True\<rparr>;
          w1 = process_kill (at_process a) SIGTERM w;
          w2 = if_requestId (at_requestId a)
                 (\<lambda>r v. log INFO (''Removed active process (timeout) for requestId: '' @ r) []
                          (v\<lparr>activeProcesses := map_delete (activeProcesses v) r\<rparr>)) w1;
          executionTimeMs = now - at_startTime a;
          w3 = log WARN ''Claude Code CLI execution timed out''
                 [(''timeoutMs'', Some (JNum (at_timeoutMs a))),
                  (''executionTimeMs'', Some (JNum executionTimeMs))] w2
      in (resolve
            \<lparr>res_success = False, res_output = None,
             res_error = Some
               \<lparr>err_code = TIMEOUT,
                err_message = ''AI generation timed out after '' @
                  show_int (at_timeoutMs a div 1000) @
                  '' seconds. Try simplifying your description.'',
                err_details = Some (''Timeout after '' @ show_int (at_timeoutMs a) @ ''ms'')\<rparr>,
             res_executionTimeMs = executionTimeMs\<rparr> a1, w3))"

text \<open>The handler of the process event \<open>error\<close>, with \<open>err.code\<close> and \<open>err.message\<close>.\<close>

definition on_error :: "int \<Rightarrow> string option \<Rightarrow> string \<Rightarrow> attempt \<times> world \<Rightarrow> attempt \<times> world" where
  "on_error now errCode errMessage aw =
     (let a = fst aw; w = snd aw;
          a1 = a\<lparr>at_timer_armed := False\<rparr>;
          w1 = if_requestId (at_requestId a)
                 (\<lambda>r v. log INFO (''Removed active process (error) for requestId: '' @ r) []
                          (v\<lparr>activeProcesses := map_delete (activeProcesses v) r\<rparr>)) w
      in if at_timedOut a1 then (a1, w1)
         else
           (let executionTimeMs = now - at_startTime a1;
                dat = [(''errorCode'', map_option JStr errCode),
                       (''errorMessage'', Some (JStr errMessage)),
                       (''executionTimeMs'', Some (JNum executionTimeMs))]
            in if errCode = Some ''ENOENT''
               then (resolve
                       \<lparr>res_success = False, res_output = None,
                        res_error = Some
                          \<lparr>err_code = COMMAND_NOT_FOUND,
                           err_message =
                             ''Cannot connect to Claude Code - please ensure it is installed and running'',
                           err_details = Some errMessage\<rparr>,
                        res_executionTimeMs = executionTimeMs\<rparr> a1,
                     log ERROR ''Claude Code CLI not found'' dat w1)
               else (resolve
                       \<lparr>res_success = False, res_output = None,
                        res_error = Some
                          \<lparr>err_code = UNKNOWN_ERROR,
                           err_message = ''An unexpected error occurred. Please try again.'',
                           err_details = Some errMessage\<rparr>,
                        res_executionTimeMs = executionTimeMs\<rparr> a1,
                     log ERROR ''Claude Code CLI execution error'' dat w1)))"

text \<open>\<open>${code}\<close> for the exit code, which is \<open>null\<close> when a signal ended the process.\<close>

definition show_code :: "int option \<Rightarrow> string" where
  "show_code code = (case code of None \<Rightarrow> ''null'' | Some c \<Rightarrow> show_int c)"

text \<open>The handler of the process event \<open>exit\<close>.\<close>

definition on_exit :: "int \<Rightarrow> int option \<Rightarrow> attempt \<times> world \<Rightarrow> attempt \<times> world" where
  "on_exit now code aw =
     (let a = fst aw; w = snd aw;
          a1 = a\<lparr>at_timer_armed := False\<rparr>;
          w1 = if_requestId (at_requestId a)
                 (\<lambda>r v. log INFO (''Removed active process (exit) for requestId: '' @ r) []
                          (v\<lparr>activeProcesses := map_delete (activeProcesses v) r\<rparr>)) w
      in if at_timedOut a1 then (a1, w1)
         else
           (let executionTimeMs = now - at_startTime a1
            in if code = Some 0
               then (resolve
                       \<lparr>res_success = True, res_output = Some (trim (at_stdout a1)),
                        res_error = None, res_executionTimeMs = executionTimeMs\<rparr> a1,
                     log INFO ''Claude Code CLI execution succeeded''
                       [(''executionTimeMs'', Some (JNum executionTimeMs)),
                        (''outputLength'', Some (JNum (int (length (at_stdout a1)))))] w1)
               else (resolve
                       \<lparr>res_success = False, res_output = None,
                        res_error = Some
                          \<lparr>err_code = UNKNOWN_ERROR,
                           err_message =
                             ''Generation failed - please try again or rephrase your description'',
                           err_details = Some
                             (''Exit code: '' @ show_code code @ '', stderr: '' @ at_stderr a1)\<rparr>,
                        res_executionTimeMs = executionTimeMs\<rparr> a1,
                     log ERROR ''Claude Code CLI execution failed''
                       [(''exitCode'', map_option JNum code),
                        (''executionTimeMs'', Some (JNum executionTimeMs)),
                        (''stderr'', Some (JStr (take 200 (at_stderr a1))))] w1)))"

record cancel_result =
  cancelled :: bool
  cancel_executionTimeMs :: "int option"

definition cancelGeneration :: "int \<Rightarrow> string \<Rightarrow> world \<Rightarrow> cancel_result \<times> world" where
  "cancelGeneration now requestId w =
     (case map_get (activeProcesses w) requestId of
        None \<Rightarrow>
          (\<lparr>cancelled = False, cancel_executionTimeMs = None\<rparr>,
           log WARN (''No active generation found for requestId: '' @ requestId) [] w)
      | Some activeGen \<Rightarrow>
          (let childProcess = ae_process activeGen;
               executionTimeMs = now - ae_startTime activeGen;
               w1 = log INFO (''Cancelling generation for requestId: '' @ requestId)
                      [(''pid'', pid_json (processes w childProcess)),
                       (''elapsedMs'', Some (JNum executionTimeMs))] w;
               w2 = process_kill childProcess SIGTERM w1;
               w3 = w2\<lparr>kill_timers := kill_timers w2 @
                      [\<lparr>kt_delay = 500, kt_process = childProcess,
                        kt_warning = ''Forcefully killed process for requestId: '' @ requestId\<rparr>]\<rparr>;
               w4 = w3\<lparr>activeProcesses := map_delete (activeProcesses w3) requestId\<rparr>
           in (\<lparr>cancelled = True, cancel_executionTimeMs = Some executionTimeMs\<rparr>, w4)))"

definition cancelRefinement :: "int \<Rightarrow> string \<Rightarrow> world \<Rightarrow> cancel_result \<times> world" where
  "cancelRefinement now requestId w =
     (case map_get (activeProcesses w) requestId of
        None \<Rightarrow>
          (\<lparr>cancelled = False, cancel_executionTimeMs = None\<rparr>,
           log WARN (''No active refinement found for requestId: '' @ requestId) [] w)
      | Some activeGen \<Rightarrow>
          (let childProcess = ae_process activeGen;
               executionTimeMs = now - ae_startTime activeGen;
               w1 = log INFO (''Cancelling refinement for requestId: '' @ requestId)
                      [(''pid'', pid_json (processes w childProcess)),
                       (''elapsedMs'', Some (JNum executionTimeMs))] w;
               w2 = process_kill childProcess SIGTERM w1;
               w3 = w2\<lparr>kill_timers := kill_timers w2 @
                      [\<lparr>kt_delay = 500, kt_process = childProcess,
                        kt_warning =
                          ''Forcefully killed refinement process for requestId: '' @ requestId\<rparr>]\<rparr>;
               w4 = w3\<lparr>activeProcesses := map_delete (activeProcesses w3) requestId\<rparr>
           in (\<lparr>cancelled = True, cancel_executionTimeMs = Some executionTimeMs\<rparr>, w4)))"

text \<open>The callback a cancel function arms: after the delay, a forced kill unless the
  process object is already marked \<open>killed\<close>.\<close>

definition fire_kill_timer :: "kill_timer \<Rightarrow> world \<Rightarrow> world" where
  "fire_kill_timer t w =
     (if \<not> cp_killed (processes w (kt_process t))
      then log WARN (kt_warning t) [] (process_kill (kt_process t) SIGKILL w)
      else w)"

text \<open>
  What can happen to an attempt after its start, each with the time at which it happens:
  the timeout fires (only while armed: \<open>clearTimeout\<close> and the firing itself disarm it),
  the process writes to stdout or stderr, it emits \<open>error\<close> or \<open>exit\<close> (the runtime has
  dropped the handle of an exited process), a caller cancels some request id, or the first
  pending force-kill timer fires.
\<close>

datatype event =
    TimeoutFired
  | StdoutData string
  | StderrData string
  | ProcessError "string option" string
  | ProcessExit "int option"
  | CancelGeneration string
  | CancelRefinement string
  | KillTimerFired

fun step :: "attempt \<times> world \<Rightarrow> int \<times> event \<Rightarrow> attempt \<times> world" where
  "step (a, w) (now, TimeoutFired) =
     (if at_timer_armed a then on_timeout now (a\<lparr>at_timer_armed := False\<rparr>, w) else (a, w))"
| "step (a, w) (now, StdoutData chunk) = (a\<lparr>at_stdout := at_stdout a @ chunk\<rparr>, w)"
| "step (a, w) (now, StderrData chunk) = (a\<lparr>at_stderr := at_stderr a @ chunk\<rparr>, w)"
| "step (a, w) (now, ProcessError errCode errMessage) = on_error now errCode errMessage (a, w)"
| "step (a, w) (now, ProcessExit code) =
     on_exit now code
       (a, w\<lparr>processes := (processes w)
              (at_process a := (processes w (at_process a))\<lparr>cp_running := False\<rparr>)\<rparr>)"
| "step (a, w) (now, CancelGeneration requestId) = (a, snd (cancelGeneration now requestId w))"
| "step (a, w) (now, CancelRefinement requestId) = (a, snd (cancelRefinement now requestId w))"
| "step (a, w) (now, KillTimerFired) =
     (case kill_timers w of
        [] \<Rightarrow> (a, w)
      | t # ts \<Rightarrow> (a, fire_kill_timer t (w\<lparr>kill_timers := ts\<rparr>)))"

definition run :: "attempt \<times> world \<Rightarrow> (int \<times> event) list \<Rightarrow> attempt \<times> world" where
  "run aw evs = foldl step aw evs"

text \<open>The events that neither settle nor time out an attempt.\<close>

fun is_pending_event :: "event \<Rightarrow> bool" where
  "is_pending_event TimeoutFired = False"
| "is_pending_event (ProcessError c m) = False"
| "is_pending_event (ProcessExit c) = False"
| "is_pending_event _ = True"

text \<open>The text written to stderr by a list of events.\<close>

fun stderr_of :: "(int \<times> event) list \<Rightarrow> string" where
  "stderr_of [] = []"
| "stderr_of ((t, StderrData chunk) # evs) = chunk @ stderr_of evs"
| "stderr_of (_ # evs) = stderr_of evs"

section \<open>Refinement service (refinement-service)\<close>

subsection \<open>The regular expressions of the classifier\<close>

text \<open>Matching under the flag \<open>i\<close>: ASCII letters are compared without case.\<close>

definition to_lower :: "char \<Rightarrow> char" where
  "to_lower c =
     (case map_of (zip ''ABCDEFGHIJKLMNOPQRSTUVWXYZ'' ''abcdefghijklmnopqrstuvwxyz'') c of
        None \<Rightarrow> c
      | Some l \<Rightarrow> l)"

text \<open>A literal at the start of a text, without case: what follows it, if it is there.\<close>

fun match_literal :: "string \<Rightarrow> string \<Rightarrow> string option" where
  "match_literal [] s = Some s"
| "match_literal (p # ps) [] = None"
| "match_literal (p # ps) (c # cs) =
     (if to_lower c = to_lower p then match_literal ps cs else None)"

definition starts_with :: "string \<Rightarrow> string \<Rightarrow> bool" where
  "starts_with p s = (take (length p) s = p)"

text \<open>The text after, and the text before, the first occurrence of a non-empty \<open>p\<close>.\<close>

fun after_first :: "string \<Rightarrow> string \<Rightarrow> string option" where
  "after_first p [] = None"
| "after_first p (c # s) =
     (if starts_with p (c # s) then Some (drop (length p) (c # s)) else after_first p s)"

fun before_first :: "string \<Rightarrow> string \<Rightarrow> string option" where
  "before_first p [] = None"
| "before_first p (c # s) =
     (if starts_with p (c # s) then Some [] else map_option ((#) c) (before_first p s))"

lemma after_first_length: "after_first p s = Some r \<Longrightarrow> length r \<le> length s"
  by (induction s) (auto split: if_splits)

text \<open>
  \<open>output.replace(/```json[\s\S]*?```/g, '')\<close>: scanning from the left, each opening fence
  with a closing fence after it is removed up to the first such closing fence (the
  quantifier is lazy); an opening fence that is never closed stays.
\<close>

function strip_json_fences :: "string \<Rightarrow> string" where
  "strip_json_fences [] = []"
| "strip_json_fences (c # s) =
     (if starts_with ''```json'' (c # s)
      then (case after_first ''```'' (drop 7 (c # s)) of
              Some rest \<Rightarrow> strip_json_fences rest
            | None \<Rightarrow> c # strip_json_fences s)
      else c # strip_json_fences s)"
  by pat_completeness auto
termination
proof (relation "measure length")
  fix c :: char and s rest :: string
  assume "after_first ''```'' (drop 7 (c # s)) = Some rest"
  then have "length rest \<le> length (drop 7 (c # s))" by (rule after_first_length)
  then show "(rest, c # s) \<in> measure length" by simp
qed simp_all

text \<open>
  The patterns, as far as the source uses the syntax: a literal, \<open>\s+\<close>, sequence,
  alternative and \<open>(...)?\<close>. \<open>rx_match r s\<close> lists what is left of \<open>s\<close> after each way
  in which \<open>r\<close> matches a prefix of it; \<open>rx_test\<close> is \<open>RegExp.prototype.test\<close>: a match
  starting anywhere.
\<close>

datatype rx =
    Lit string
  | Spaces1
  | Seq rx rx
  | Alt rx rx
  | Opt rx

fun rx_match :: "rx \<Rightarrow> string \<Rightarrow> string list" where
  "rx_match (Lit l) s = (case match_literal l s of None \<Rightarrow> [] | Some rest \<Rightarrow> [rest])"
| "rx_match Spaces1 s =
     map (\<lambda>k. drop k s) (rev [1 ..< Suc (length (takeWhile is_space s))])"
| "rx_match (Seq a b) s = concat (map (rx_match b) (rx_match a s))"
| "rx_match (Alt a b) s = rx_match a s @ rx_match b s"
| "rx_match (Opt a) s = rx_match a s @ [s]"

fun rx_test :: "rx \<Rightarrow> string \<Rightarrow> bool" where
  "rx_test r [] = (rx_match r [] \<noteq> [])"
| "rx_test r (c # s) = (rx_match r (c # s) \<noteq> [] \<or> rx_test r s)"

definition clarificationPatterns :: "rx list" where
  "clarificationPatterns =
     [Lit ''I need to understand'',
      Seq (Lit ''could you '')
        (Seq (Opt (Seq (Lit ''please'') Spaces1))
           (Alt (Lit ''clarify'') (Alt (Lit ''specify'') (Lit ''tell me more'')))),
      Lit ''ambiguous'',
      Lit ''unclear'',
      Lit ''could mean'',
      Seq (Lit ''which '')
        (Alt (Lit ''one'') (Alt (Lit ''approach'') (Alt (Lit ''option'') (Lit ''method'')))),
      Lit ''would you like me to'',
      Seq (Lit ''please '') (Alt (Lit ''clarify'') (Lit ''specify'')),
      Seq (Lit ''not sure '') (Alt (Lit ''what'') (Alt (Lit ''which'') (Lit ''how''))),
      Seq (Lit ''can you provide more '') (Alt (Lit ''details'') (Lit ''information''))]"

definition isClarificationMessage :: "string \<Rightarrow> bool" where
  "isClarificationMessage output =
     (let textWithoutCodeBlocks = strip_json_fences output
      in list_ex (\<lambda>pattern. rx_test pattern textWithoutCodeBlocks) clarificationPatterns)"

text \<open>
  \<open>replace(/\n\s*\{[\s\S]*\}\s*$/g, '')\<close>: from the first line feed that is followed, after
  white space, by an opening brace whose text runs to a closing brace with only white
  space after it at the end of the input, everything is removed.
\<close>

definition json_tail :: "string \<Rightarrow> bool" where
  "json_tail s =
     (case dropWhile is_space s of
        [] \<Rightarrow> False
      | c # rest \<Rightarrow>
          c = CHR ''{'' \<and>
          (case dropWhile is_space (rev rest) of [] \<Rightarrow> False | d # _ \<Rightarrow> d = CHR ''}''))"

fun strip_trailing_json :: "string \<Rightarrow> string" where
  "strip_trailing_json [] = []"
| "strip_trailing_json (c # s) =
     (if c = CHR 0x0A \<and> json_tail s then [] else c # strip_trailing_json s)"

definition extractClarificationMessage :: "string \<Rightarrow> string" where
  "extractClarificationMessage output = trim (strip_trailing_json (strip_json_fences output))"

text \<open>
  \<open>output.match(/```json\s*([\s\S]*?)\s*```/)\<close>: the group of the first fenced block,
  which is the text between the opening fence and the first closing fence after it,
  without the white space at its two ends.
\<close>

definition fenced_json :: "string \<Rightarrow> string option" where
  "fenced_json output =
     (case after_first ''```json'' output of
        None \<Rightarrow> None
      | Some rest \<Rightarrow> map_option trim (before_first ''```'' rest))"

text \<open>
  \<open>parseClaudeCodeOutput\<close>. The parameter \<open>JSON_parse\<close> stands for \<open>JSON.parse\<close> of
  the runtime followed by the cast of the source to the type it expects: \<open>None\<close> where
  \<open>JSON.parse\<close> throws (the source catches it and returns \<open>null\<close>) or yields a falsy
  value.
\<close>

definition parseClaudeCodeOutput :: "(string \<Rightarrow> 'a option) \<Rightarrow> string \<Rightarrow> 'a option" where
  "parseClaudeCodeOutput JSON_parse output =
     (let jsonString = (case fenced_json output of Some g \<Rightarrow> g | None \<Rightarrow> output)
      in JSON_parse (trim jsonString))"

subsection \<open>The reference resolver\<close>

text \<open>A catalogue entry (\<open>SkillReference\<close>); scope and status are strings at run time.\<close>

record SkillReference =
  skill_name :: string
  skill_description :: string
  skill_scope :: string
  skill_skillPath :: string
  skill_validationStatus :: string

text \<open>
  Object spread \<open>{...x}\<close> of a JSON value: the properties of an object, the indexed
  elements of an array or characters of a string, nothing for a number or a boolean.
\<close>

fun spread_json :: "json \<Rightarrow> (string \<times> json) list" where
  "spread_json (JObj kvs) = kvs"
| "spread_json (JArr xs) = map (\<lambda>(i, x). (show_nat i, x)) (enumerate 0 xs)"
| "spread_json (JStr s) = map (\<lambda>(i, c). (show_nat i, JStr [c])) (enumerate 0 s)"
| "spread_json _ = []"

text \<open>The message of the \<open>TypeError\<close> of reading a property of \<open>undefined\<close> or \<open>null\<close>.\<close>

definition cannot_read :: "string \<Rightarrow> string \<Rightarrow> string" where
  "cannot_read what prop =
     ''Cannot read properties of '' @ what @ '' (reading '' @ [CHR 0x27] @ prop @ [CHR 0x27] @ '')''"

text \<open>
  Object spread \<open>{...skillData}\<close> of the payload of a node: nothing for \<open>undefined\<close>
  and \<open>null\<close>.
\<close>

definition spread_data :: "json option \<Rightarrow> (string \<times> json) list" where
  "spread_data d = (case d of None \<Rightarrow> [] | Some j \<Rightarrow> spread_json j)"

text \<open>
  The callback of \<open>availableSkills.find\<close>:
  \<open>skill.name === skillData.name && skill.scope === skillData.scope\<close>. Reading
  \<open>skillData.name\<close> throws when the payload is \<open>undefined\<close> or \<open>null\<close>; \<open>Inl\<close> is
  a thrown error with its message.
\<close>

definition skill_matches :: "json option \<Rightarrow> SkillReference \<Rightarrow> string + bool" where
  "skill_matches skillData skill =
     (case skillData of
        None \<Rightarrow> Inl (cannot_read ''undefined'' ''name'')
      | Some JNull \<Rightarrow> Inl (cannot_read ''null'' ''name'')
      | Some d \<Rightarrow>
          Inr (json_get d ''name'' = Some (JStr (skill_name skill)) \<and>
               json_get d ''scope'' = Some (JStr (skill_scope skill))))"

text \<open>
  \<open>Array.prototype.find\<close> with a callback that may throw: the callback is called on the
  elements in order until it returns true, so on an empty array it is never called.
\<close>

fun find_throwing :: "('a \<Rightarrow> 'e + bool) \<Rightarrow> 'a list \<Rightarrow> 'e + 'a option" where
  "find_throwing p [] = Inr None"
| "find_throwing p (x # xs) =
     (case p x of
        Inl e \<Rightarrow> Inl e
      | Inr b \<Rightarrow> (if b then Inr (Some x) else find_throwing p xs))"

text \<open>The callback of \<open>workflow.nodes.map\<close> in \<open>resolveSkillPaths\<close>.\<close>

definition resolve_node :: "SkillReference list \<Rightarrow> wf_node \<Rightarrow> string + wf_node" where
  "resolve_node availableSkills node =
     (if wn_type node \<noteq> ''skill'' then Inr node
      else
        (let skillData = wn_data node
         in case find_throwing (skill_matches skillData) availableSkills of
              Inl thrown \<Rightarrow> Inl thrown
            | Inr (Some matchedSkill) \<Rightarrow>
                Inr (node\<lparr>wn_data := Some (JObj
                  (map_set
                     (map_set (spread_data skillData) ''skillPath''
                        (JStr (skill_skillPath matchedSkill)))
                     ''validationStatus'' (JStr (skill_validationStatus matchedSkill))))\<rparr>)
            | Inr None \<Rightarrow>
                Inr (node\<lparr>wn_data := Some (JObj
                  (map_set (spread_data skillData) ''validationStatus'' (JStr ''missing'')))\<rparr>)))"

text \<open>\<open>Array.prototype.map\<close> with a callback that may throw: the first throw ends it.\<close>

fun map_throwing :: "('a \<Rightarrow> 'e + 'b) \<Rightarrow> 'a list \<Rightarrow> 'e + 'b list" where
  "map_throwing f [] = Inr []"
| "map_throwing f (x # xs) =
     (case f x of
        Inl e \<Rightarrow> Inl e
      | Inr y \<Rightarrow> (case map_throwing f xs of Inl e \<Rightarrow> Inl e | Inr ys \<Rightarrow> Inr (y # ys)))"

definition resolveSkillPaths :: "workflow \<Rightarrow> SkillReference list \<Rightarrow> string + workflow" where
  "resolveSkillPaths wflow availableSkills =
     (case map_throwing (resolve_node availableSkills) (wf_nodes wflow) of
        Inl e \<Rightarrow> Inl e
      | Inr resolvedNodes \<Rightarrow> Inr (wflow\<lparr>wf_nodes := resolvedNodes\<rparr>))"

subsection \<open>The orchestrators\<close>

text \<open>
  The collaborators that are not part of the service enter as parameters: the awaited
  results of \<open>loadWorkflowSchema\<close>, \<open>scanAllSkills\<close> and \<open>executeClaudeCodeCLI\<close>, the
  parser \<open>JSON_parse\<close> and the validator \<open>validateAIGeneratedWorkflow\<close>; \<open>startTime\<close>
  and \<open>now\<close> are the readings of \<open>Date.now()\<close> at the start and at the return. The prompt
  only reaches the subprocess, whose reply is \<open>cliResult\<close>. The calls of \<open>log\<close> are left
  out here: no result depends on them.
\<close>

record schema_load_result =
  schema_success :: bool
  schema_value :: "json option"
  schema_error_message :: "string option"

record skills_scan =
  scan_personal :: "SkillReference list"
  scan_project :: "SkillReference list"

record validation_result =
  validation_valid :: bool
  validation_errors :: "string list"

text \<open>Falsy JSON values.\<close>

fun json_falsy :: "json option \<Rightarrow> bool" where
  "json_falsy None = True"
| "json_falsy (Some JNull) = True"
| "json_falsy (Some (JBool b)) = (\<not> b)"
| "json_falsy (Some (JNum n)) = (n = 0)"
| "json_falsy (Some (JStr s)) = (s = [])"
| "json_falsy (Some _) = False"

text \<open>The parsed output under the cast to \<open>Workflow\<close>: the fields the service tests for
  presence are optional.\<close>

record parsed_workflow =
  pw_id :: "string option"
  pw_name :: string
  pw_version :: string
  pw_nodes :: "wf_node list option"
  pw_connections :: "wf_connection list option"

record RefinementResult =
  rr_success :: bool
  rr_refinedWorkflow :: "workflow option"
  rr_clarificationMessage :: "string option"
  rr_error :: "cli_error option"
  rr_executionTimeMs :: int

definition refinement_error :: "error_code \<Rightarrow> string \<Rightarrow> string option \<Rightarrow> int \<Rightarrow> RefinementResult" where
  "refinement_error code msg details ms =
     \<lparr>rr_success = False, rr_refinedWorkflow = None, rr_clarificationMessage = None,
      rr_error = Some \<lparr>err_code = code, err_message = msg, err_details = details\<rparr>,
      rr_executionTimeMs = ms\<rparr>"

definition cli_error_or_unknown :: "ClaudeCodeExecutionResult \<Rightarrow> cli_error" where
  "cli_error_or_unknown cliResult =
     (case res_error cliResult of
        Some e \<Rightarrow> e
      | None \<Rightarrow> \<lparr>err_code = UNKNOWN_ERROR,
                 err_message = ''Unknown error occurred during CLI execution'',
                 err_details = None\<rparr>)"

definition refineWorkflow ::
  "(string \<Rightarrow> parsed_workflow option) \<Rightarrow> (workflow \<Rightarrow> validation_result) \<Rightarrow>
   schema_load_result \<Rightarrow> skills_scan \<Rightarrow> ClaudeCodeExecutionResult \<Rightarrow> bool \<Rightarrow> int \<Rightarrow> int \<Rightarrow>
   RefinementResult" where
  "refineWorkflow JSON_parse validateAIGeneratedWorkflow schemaResult skillsResult cliResult
     useSkills startTime now =
     (if \<not> schema_success schemaResult \<or> json_falsy (schema_value schemaResult)
      then refinement_error UNKNOWN_ERROR ''Failed to load workflow schema''
             (schema_error_message schemaResult) (now - startTime)
      else
        (let availableSkills =
               (if useSkills then scan_personal skillsResult @ scan_project skillsResult else []);
             cli_failed =
               \<lparr>rr_success = False, rr_refinedWorkflow = None, rr_clarificationMessage = None,
                rr_error = Some (cli_error_or_unknown cliResult),
                rr_executionTimeMs = res_executionTimeMs cliResult\<rparr>;
             not_a_workflow =
               refinement_error PARSE_ERROR
                 ''Refinement failed - AI output does not match Workflow format''
                 (Some ''Missing required workflow fields (id, nodes, or connections)'')
                 (res_executionTimeMs cliResult)
         in case res_output cliResult of
              None \<Rightarrow> cli_failed
            | Some output \<Rightarrow>
                if \<not> res_success cliResult \<or> output = [] then cli_failed
                else if isClarificationMessage output
                then \<lparr>rr_success = True, rr_refinedWorkflow = None,
                      rr_clarificationMessage = Some (extractClarificationMessage output),
                      rr_error = None, rr_executionTimeMs = res_executionTimeMs cliResult\<rparr>
                else
                  (case parseClaudeCodeOutput JSON_parse output of
                     None \<Rightarrow>
                       refinement_error PARSE_ERROR
                         ''Failed to parse AI response. Please try again or rephrase your request''
                         (Some ''Failed to parse JSON from Claude Code output'')
                         (res_executionTimeMs cliResult)
                   | Some parsed \<Rightarrow>
                       (case (pw_id parsed, pw_nodes parsed, pw_connections parsed) of
                          (Some i, Some ns, Some cs) \<Rightarrow>
                            if i = [] then not_a_workflow
                            else
                              (let refinedWorkflow =
                                     \<lparr>wf_id = i, wf_name = pw_name parsed,
                                      wf_version = pw_version parsed, wf_nodes = ns,
                                      wf_connections = cs\<rparr>
                               in case (if useSkills
                                        then resolveSkillPaths refinedWorkflow availableSkills
                                        else Inr refinedWorkflow) of
                                    Inl thrown \<Rightarrow>
                                      refinement_error UNKNOWN_ERROR
                                        ''An unexpected error occurred during refinement''
                                        (Some thrown) (now - startTime)
                                  | Inr resolved \<Rightarrow>
                                      (let validation = validateAIGeneratedWorkflow resolved
                                       in if \<not> validation_valid validation
                                          then refinement_error VALIDATION_ERROR
                                                 ''Refined workflow failed validation - please try again''
                                                 (Some (join ''; '' (validation_errors validation)))
                                                 (res_executionTimeMs cliResult)
                                          else \<lparr>rr_success = True,
                                                rr_refinedWorkflow = Some resolved,
                                                rr_clarificationMessage = None,
                                                rr_error = None,
                                                rr_executionTimeMs = now - startTime\<rparr>))
                        | _ \<Rightarrow> not_a_workflow))))"

subsection \<open>Sub-agent flows\<close>

record InnerWorkflow =
  iw_nodes :: "wf_node list"
  iw_connections :: "wf_connection list"

record parsed_inner =
  pi_nodes :: "wf_node list option"
  pi_connections :: "wf_connection list option"

record SubAgentFlowRefinementResult =
  sr_success :: bool
  sr_refinedInnerWorkflow :: "InnerWorkflow option"
  sr_clarificationMessage :: "string option"
  sr_error :: "cli_error option"
  sr_executionTimeMs :: int

definition SUBAGENTFLOW_PROHIBITED_NODE_TYPES :: "string list" where
  "SUBAGENTFLOW_PROHIBITED_NODE_TYPES = [''subAgent'', ''subAgentFlow'', ''askUserQuestion'']"

definition SUBAGENTFLOW_MAX_NODES :: nat where
  "SUBAGENTFLOW_MAX_NODES = 30"

record node_validation =
  nv_valid :: bool
  nv_prohibitedNodes :: "string list"

definition validateSubAgentFlowNodes :: "InnerWorkflow \<Rightarrow> node_validation" where
  "validateSubAgentFlowNodes innerWorkflow =
     (let prohibitedNodes =
            map (\<lambda>node. wn_type node @ '' ('' @ wn_id node @ '')'')
              (filter (\<lambda>node. wn_type node \<in> set SUBAGENTFLOW_PROHIBITED_NODE_TYPES)
                 (iw_nodes innerWorkflow))
      in \<lparr>nv_valid = (length prohibitedNodes = 0), nv_prohibitedNodes = prohibitedNodes\<rparr>)"

definition subagent_error ::
  "error_code \<Rightarrow> string \<Rightarrow> string option \<Rightarrow> int \<Rightarrow> SubAgentFlowRefinementResult" where
  "subagent_error code msg details ms =
     \<lparr>sr_success = False, sr_refinedInnerWorkflow = None, sr_clarificationMessage = None,
      sr_error = Some \<lparr>err_code = code, err_message = msg, err_details = details\<rparr>,
      sr_executionTimeMs = ms\<rparr>"

definition refineSubAgentFlow ::
  "(string \<Rightarrow> parsed_inner option) \<Rightarrow> schema_load_result \<Rightarrow> skills_scan \<Rightarrow>
   ClaudeCodeExecutionResult \<Rightarrow> bool \<Rightarrow> int \<Rightarrow> int \<Rightarrow> SubAgentFlowRefinementResult" where
  "refineSubAgentFlow JSON_parse schemaResult skillsResult cliResult useSkills startTime now =
     (if \<not> schema_success schemaResult \<or> json_falsy (schema_value schemaResult)
      then subagent_error UNKNOWN_ERROR ''Failed to load workflow schema''
             (schema_error_message schemaResult) (now - startTime)
      else
        (let availableSkills =
               (if useSkills then scan_personal skillsResult @ scan_project skillsResult else []);
             cli_failed =
               \<lparr>sr_success = False, sr_refinedInnerWorkflow = None,
                sr_clarificationMessage = None,
                sr_error = Some (cli_error_or_unknown cliResult),
                sr_executionTimeMs = res_executionTimeMs cliResult\<rparr>;
             missing_fields =
               subagent_error PARSE_ERROR
                 ''Refinement failed - AI output does not match expected format''
                 (Some ''Missing required fields (nodes or connections)'')
                 (res_executionTimeMs cliResult)
         in case res_output cliResult of
              None \<Rightarrow> cli_failed
            | Some output \<Rightarrow>
                if \<not> res_success cliResult \<or> output = [] then cli_failed
                else if isClarificationMessage output
                then \<lparr>sr_success = True, sr_refinedInnerWorkflow = None,
                      sr_clarificationMessage = Some (extractClarificationMessage output),
                      sr_error = None, sr_executionTimeMs = res_executionTimeMs cliResult\<rparr>
                else
                  (case parseClaudeCodeOutput JSON_parse output of
                     None \<Rightarrow>
                       subagent_error PARSE_ERROR
                         ''Failed to parse AI response. Please try again or rephrase your request''
                         (Some ''Failed to parse JSON from Claude Code output'')
                         (res_executionTimeMs cliResult)
                   | Some parsed \<Rightarrow>
                       (case (pi_nodes parsed, pi_connections parsed) of
                          (Some ns, Some cs) \<Rightarrow>
                            (let refinedInnerWorkflow = \<lparr>iw_nodes = ns, iw_connections = cs\<rparr>;
                                 nodeValidation = validateSubAgentFlowNodes refinedInnerWorkflow
                             in if \<not> nv_valid nodeValidation
                                then subagent_error PROHIBITED_NODE_TYPE
                                       ''Sub-Agent Flow cannot contain SubAgent, SubAgentFlow, or AskUserQuestion nodes''
                                       (Some (''Prohibited nodes found: '' @
                                              join '', '' (nv_prohibitedNodes nodeValidation)))
                                       (res_executionTimeMs cliResult)
                                else if length (iw_nodes refinedInnerWorkflow) > SUBAGENTFLOW_MAX_NODES
                                then subagent_error VALIDATION_ERROR
                                       (''Sub-Agent Flow cannot exceed '' @
                                        show_nat SUBAGENTFLOW_MAX_NODES @ '' nodes'')
                                       (Some (''Current count: '' @
                                              show_nat (length (iw_nodes refinedInnerWorkflow))))
                                       (res_executionTimeMs cliResult)
                                else
                                  (case (if useSkills
                                         then resolveSkillPaths
                                                \<lparr>wf_id = ''temp'', wf_name = ''temp'',
                                                 wf_version = ''1.0.0'',
                                                 wf_nodes = iw_nodes refinedInnerWorkflow,
                                                 wf_connections = iw_connections refinedInnerWorkflow\<rparr>
                                                availableSkills
                                         else Inr \<lparr>wf_id = ''temp'', wf_name = ''temp'',
                                                   wf_version = ''1.0.0'',
                                                   wf_nodes = iw_nodes refinedInnerWorkflow,
                                                   wf_connections =
                                                     iw_connections refinedInnerWorkflow\<rparr>) of
                                     Inl thrown \<Rightarrow>
                                       subagent_error UNKNOWN_ERROR
                                         ''An unexpected error occurred during refinement''
                                         (Some thrown) (now - startTime)
                                   | Inr resolvedWorkflow \<Rightarrow>
                                       \<lparr>sr_success = True,
                                        sr_refinedInnerWorkflow = Some
                                          (refinedInnerWorkflow
                                             \<lparr>iw_nodes := wf_nodes resolvedWorkflow\<rparr>),
                                        sr_clarificationMessage = None, sr_error = None,
                                        sr_executionTimeMs = now - startTime\<rparr>))
                        | _ \<Rightarrow> missing_fields))))"

section \<open>Example inputs\<close>

abbreviation ex_start :: rf_node where
  "ex_start \<equiv> \<lparr>node_id = ''s'', node_type = Some ''start'', node_position = (0, 0),
     node_data = Some (JObj [(''label'', JStr ''Start'')])\<rparr>"

abbreviation ex_end :: rf_node where
  "ex_end \<equiv> \<lparr>node_id = ''e'', node_type = Some ''end'', node_position = (9, 0),
     node_data = None\<rparr>"

abbreviation ex_prompt :: rf_node where
  "ex_prompt \<equiv> \<lparr>node_id = ''p'', node_type = Some ''prompt'', node_position = (5, 0),
     node_data = Some (JObj [(''prompt'', JStr ''Summarise''), (''retries'', JNum 2)])\<rparr>"

abbreviation ex_edge :: rf_edge where
  "ex_edge \<equiv> \<lparr>edge_source = ''s'', edge_sourceHandle = None, edge_target = ''p'',
     edge_targetHandle = Some ''input''\<rparr>"

abbreviation ex_wf_start :: wf_node where
  "ex_wf_start \<equiv> \<lparr>wn_id = ''s'', wn_type = ''start'', wn_name = ''Start'',
     wn_position = (0, 0), wn_data = Some (JObj [(''label'', JStr ''Start'')])\<rparr>"

abbreviation ex_wf_prompt :: wf_node where
  "ex_wf_prompt \<equiv> \<lparr>wn_id = ''p'', wn_type = ''prompt'', wn_name = ''Prompt'',
     wn_position = (5, 0),
     wn_data = Some (JObj [(''prompt'', JStr ''Summarise''), (''retries'', JNum 2)])\<rparr>"

text \<open>The prompt node again, with another type and position but the same data payload.\<close>

abbreviation ex_wf_prompt_moved :: wf_node where
  "ex_wf_prompt_moved \<equiv> \<lparr>wn_id = ''p'', wn_type = ''end'', wn_name = ''Other'',
     wn_position = (7, 3),
     wn_data = Some (JObj [(''prompt'', JStr ''Summarise''), (''retries'', JNum 2)])\<rparr>"

abbreviation ex_conn :: wf_connection where
  "ex_conn \<equiv> \<lparr>conn_id = ''c1'', conn_from = ''s'', conn_to = ''p'', conn_fromPort = '''',
     conn_toPort = ''input''\<rparr>"

abbreviation ex_workflow :: "string \<Rightarrow> wf_node list \<Rightarrow> wf_connection list \<Rightarrow> workflow" where
  "ex_workflow nm ns cs \<equiv>
     \<lparr>wf_id = ''w'', wf_name = nm, wf_version = ''1.0.0'', wf_nodes = ns, wf_connections = cs\<rparr>"

text \<open>A running process, an empty module state, and an attempt started in it under the
  request id \<open>req-1\<close> at time 1000 with a timeout of 50 ms.\<close>

abbreviation ex_child :: child_process where
  "ex_child \<equiv> \<lparr>cp_pid = Some 4242, cp_running = True, cp_killed = False, cp_signals = []\<rparr>"

abbreviation ex_world :: world where
  "ex_world \<equiv> \<lparr>activeProcesses = [], processes = (\<lambda>r. ex_child), kill_timers = [], logs = []\<rparr>"

abbreviation ex_started :: "attempt \<times> world" where
  "ex_started \<equiv> executeClaudeCodeCLI_start ''Add a node'' 50 (Some ''req-1'') None 1000 ''/home''
      7 ex_child ex_world"

abbreviation ex_registered :: world where
  "ex_registered \<equiv> snd ex_started"

text \<open>Two catalogue entries, one valid and one whose own status is \<open>missing\<close>, and a
  skill node as the tool proposes it.\<close>

abbreviation ex_skill_lint :: SkillReference where
  "ex_skill_lint \<equiv> \<lparr>skill_name = ''lint'', skill_description = ''Run the linter'',
     skill_scope = ''project'', skill_skillPath = ''/ws/.claude/skills/lint/SKILL.md'',
     skill_validationStatus = ''valid''\<rparr>"

abbreviation ex_skill_stale :: SkillReference where
  "ex_skill_stale \<equiv> \<lparr>skill_name = ''deploy'', skill_description = ''Deploy'',
     skill_scope = ''personal'', skill_skillPath = ''/home/u/.claude/skills/deploy/SKILL.md'',
     skill_validationStatus = ''missing''\<rparr>"

abbreviation ex_skill_node :: "string \<Rightarrow> string \<Rightarrow> string \<Rightarrow> wf_node" where
  "ex_skill_node i nm sc \<equiv> \<lparr>wn_id = i, wn_type = ''skill'', wn_name = nm, wn_position = (3, 0),
     wn_data = Some (JObj [(''name'', JStr nm), (''scope'', JStr sc), (''outputPorts'', JNum 1)])\<rparr>"

text \<open>A skill node without a payload.\<close>

abbreviation ex_skill_node_no_data :: wf_node where
  "ex_skill_node_no_data \<equiv> \<lparr>wn_id = ''k3'', wn_type = ''skill'', wn_name = [],
     wn_position = (3, 0), wn_data = None\<rparr>"

abbreviation dq :: string where
  "dq \<equiv> [CHR 0x22]"

abbreviation ex_schema :: schema_load_result where
  "ex_schema \<equiv> \<lparr>schema_success = True, schema_value = Some (JObj [(''version'', JStr ''1'')]),
     schema_error_message = None\<rparr>"

abbreviation ex_scan :: skills_scan where
  "ex_scan \<equiv> \<lparr>scan_personal = [ex_skill_stale], scan_project = [ex_skill_lint]\<rparr>"

abbreviation ex_cli :: "string \<Rightarrow> ClaudeCodeExecutionResult" where
  "ex_cli out \<equiv> \<lparr>res_success = True, res_output = Some out, res_error = None,
     res_executionTimeMs = 1200\<rparr>"

text \<open>A reply that asks a question and then gives a workflow in a fenced block.\<close>

abbreviation ex_workflow_json :: string where
  "ex_workflow_json \<equiv> ''{'' @ dq @ ''id'' @ dq @ '':'' @ dq @ ''w'' @ dq @ '','' @ dq @ ''nodes'' @ dq @
     '':[],'' @ dq @ ''connections'' @ dq @ '':[]}''"

abbreviation ex_reply :: string where
  "ex_reply \<equiv> ''Which approach do you prefer?'' @ [CHR 0x0A] @ ''```json'' @ [CHR 0x0A] @
     ex_workflow_json @ [CHR 0x0A] @ ''```''"

abbreviation ex_parse_workflow :: "string \<Rightarrow> parsed_workflow option" where
  "ex_parse_workflow \<equiv> (\<lambda>s. if s = ex_workflow_json
     then Some \<lparr>pw_id = Some ''w'', pw_name = ''A'', pw_version = ''1.0.0'', pw_nodes = Some [],
                pw_connections = Some []\<rparr>
     else None)"

abbreviation ex_validate :: "workflow \<Rightarrow> validation_result" where
  "ex_validate \<equiv> (\<lambda>w. \<lparr>validation_valid = True, validation_errors = []\<rparr>)"

text \<open>A nested flow with an interactive question after its start node.\<close>

abbreviation ex_inner_json :: string where
  "ex_inner_json \<equiv> ''{'' @ dq @ ''nodes'' @ dq @ '':[{'' @ dq @ ''id'' @ dq @ '':'' @ dq @ ''s'' @ dq @
     '','' @ dq @ ''type'' @ dq @ '':'' @ dq @ ''start'' @ dq @ ''},{'' @ dq @ ''id'' @ dq @ '':'' @
     dq @ ''q1'' @ dq @ '','' @ dq @ ''type'' @ dq @ '':'' @ dq @ ''askUserQuestion'' @ dq @ ''}],'' @
     dq @ ''connections'' @ dq @ '':[]}''"

abbreviation ex_bare_start :: wf_node where
  "ex_bare_start \<equiv> \<lparr>wn_id = ''s'', wn_type = ''start'', wn_name = [],
     wn_position = (0, 0), wn_data = None\<rparr>"

abbreviation ex_question :: wf_node where
  "ex_question \<equiv> \<lparr>wn_id = ''q1'', wn_type = ''askUserQuestion'', wn_name = [],
     wn_position = (0, 0), wn_data = None\<rparr>"

abbreviation ex_parse_inner :: "string \<Rightarrow> parsed_inner option" where
  "ex_parse_inner \<equiv> (\<lambda>s. if s = ex_inner_json
     then Some \<lparr>pi_nodes = Some [ex_bare_start, ex_question], pi_connections = Some []\<rparr>
     else None)"

section \<open>Properties of the workflow diff engine\<close>

subsection \<open>Map and Set lemmas\<close>

lemma map_set_keys: "fst ` set (map_set m k v) = insert k (fst ` set m)"
  by (induction m) force+

lemma map_set_distinct: "distinct (map fst m) \<Longrightarrow> distinct (map fst (map_set m k v))"
  by (induction m) (auto simp: map_set_keys)

lemma foldl_map_set_keys:
  "fst ` set (foldl (\<lambda>m x. map_set m (kf x) (vf x)) m0 xs) = fst ` set m0 \<union> kf ` set xs"
  by (induction xs arbitrary: m0) (auto simp: map_set_keys)

lemma foldl_map_set_distinct:
  "distinct (map fst m0) \<Longrightarrow> distinct (map fst (foldl (\<lambda>m x. map_set m (kf x) (vf x)) m0 xs))"
  by (induction xs arbitrary: m0) (auto simp: map_set_distinct)

lemma map_has_iff: "map_has m k = (k \<in> fst ` set m)"
  by (simp add: map_has_def map_of_eq_None_iff)

lemma map_set_rel:
  "list_all2 (\<lambda>a b. fst a = fst b \<and> R (snd a) (snd b)) m m' \<Longrightarrow> R v v' \<Longrightarrow>
   list_all2 (\<lambda>a b. fst a = fst b \<and> R (snd a) (snd b)) (map_set m k v) (map_set m' k v')"
  by (induction m m' rule: list_all2_induct) auto

lemma foldl_map_set_rel:
  "list_all2 (\<lambda>a b. fst a = fst b \<and> R (snd a) (snd b)) m m' \<Longrightarrow>
   list_all2 (\<lambda>x y. kf x = kf' y \<and> R (vf x) (vf' y)) xs ys \<Longrightarrow>
   list_all2 (\<lambda>a b. fst a = fst b \<and> R (snd a) (snd b))
     (foldl (\<lambda>m x. map_set m (kf x) (vf x)) m xs) (foldl (\<lambda>m y. map_set m (kf' y) (vf' y)) m' ys)"
proof (induction xs arbitrary: m m' ys)
  case Nil
  then show ?case by simp
next
  case (Cons x xs)
  then obtain y ys' where ys: "ys = y # ys'" and xy: "kf x = kf' y" "R (vf x) (vf' y)"
    and rest: "list_all2 (\<lambda>x y. kf x = kf' y \<and> R (vf x) (vf' y)) xs ys'"
    by (auto simp: list_all2_Cons1)
  have "list_all2 (\<lambda>a b. fst a = fst b \<and> R (snd a) (snd b))
          (map_set m (kf x) (vf x)) (map_set m' (kf' y) (vf' y))"
    using map_set_rel [OF Cons.prems(1) xy(2)] xy(1) by simp
  from Cons.IH [OF this rest] show ?case by (simp add: ys)
qed

lemma rel_lookup:
  assumes "list_all2 (\<lambda>a b. fst a = fst b \<and> R (snd a) (snd b)) m m'"
    and "distinct (map fst m)" and "(k, v') \<in> set m'"
  shows "\<exists>v. map_of m k = Some v \<and> R v v'"
  using assms
proof (induction m m' rule: list_all2_induct)
  case Nil
  then show ?case by simp
next
  case (Cons a m b m')
  then show ?case by (cases a; cases b) (auto simp: rev_image_eqI dest!: list_all2_lengthD)
qed

subsection \<open>Identical graphs\<close>

lemma new_Set_aux: "set (foldl set_add s xs) = set s \<union> set xs"
  by (induction xs arbitrary: s) (auto simp: set_add_def)

lemma set_new_Set: "set (new_Set xs) = set xs"
  by (simp add: new_Set_def new_Set_aux)

lemma currentNodeMap_keys: "fst ` set (build_currentNodeMap ns) = node_id ` set ns"
  by (simp add: build_currentNodeMap_def foldl_map_set_keys)

lemma incomingNodeMap_keys: "fst ` set (build_incomingNodeMap ns) = wn_id ` set ns"
  by (simp add: build_incomingNodeMap_def foldl_map_set_keys)

lemma currentNodeMap_distinct: "distinct (map fst (build_currentNodeMap ns))"
  by (simp add: build_currentNodeMap_def foldl_map_set_distinct)

lemma incomingNodeMap_distinct: "distinct (map fst (build_incomingNodeMap ns))"
  by (simp add: build_incomingNodeMap_def foldl_map_set_distinct)

lemma same_nodes_ids:
  "list_all2 (\<lambda>n m. node_id n = wn_id m \<and> node_data n = wn_data m) ns ms \<Longrightarrow>
   node_id ` set ns = wn_id ` set ms"
  by (induction ns ms rule: list_all2_induct) auto

lemma same_nodes_maps:
  assumes "list_all2 (\<lambda>n m. node_id n = wn_id m \<and> node_data n = wn_data m) ns ms"
  shows "list_all2 (\<lambda>a b. fst a = fst b \<and> JSON_stringify (node_data (snd a)) = ie_data (snd b))
           (build_currentNodeMap ns) (build_incomingNodeMap ms)"
proof -
  have "list_all2 (\<lambda>x y. node_id x = wn_id y \<and>
            JSON_stringify (node_data x) = ie_data (incoming_entry_of y)) ns ms"
    using assms by (rule list_all2_mono) (simp add: incoming_entry_of_def)
  then show ?thesis
    unfolding build_currentNodeMap_def build_incomingNodeMap_def
    by (intro foldl_map_set_rel
          [where R = "\<lambda>n e. JSON_stringify (node_data n) = ie_data e" and vf = "\<lambda>x. x"]) simp_all
qed

lemma same_nodes_unmodified:
  assumes "list_all2 (\<lambda>n m. node_id n = wn_id m \<and> node_data n = wn_data m) ns ms"
  shows "filter (\<lambda>(i, incomingNode).
            (case map_get (build_currentNodeMap ns) i of
               None \<Rightarrow> False
             | Some currentNode \<Rightarrow> JSON_stringify (node_data currentNode) \<noteq> ie_data incomingNode))
          (build_incomingNodeMap ms) = []"
proof -
  have "\<not> (case map_get (build_currentNodeMap ns) i of
               None \<Rightarrow> False
             | Some currentNode \<Rightarrow> JSON_stringify (node_data currentNode) \<noteq> ie_data e)"
    if "(i, e) \<in> set (build_incomingNodeMap ms)" for i e
  proof -
    from rel_lookup [OF same_nodes_maps [OF assms] currentNodeMap_distinct that]
    obtain v where "map_of (build_currentNodeMap ns) i = Some v"
      and "JSON_stringify (node_data v) = ie_data e" by blast
    then show ?thesis by (simp add: map_get_def)
  qed
  then show ?thesis by (auto simp: filter_empty_conv)
qed

lemma same_edges_keys:
  "list_all2 (\<lambda>e c. edge_source e = conn_from c \<and>
       nullish_or (edge_sourceHandle e) '''' = conn_fromPort c \<and>
       edge_target e = conn_to c \<and>
       nullish_or (edge_targetHandle e) '''' = conn_toPort c) es cs \<Longrightarrow>
   map makeEdgeKey es = map makeWorkflowEdgeKey cs"
  by (induction es cs rule: list_all2_induct) (auto simp: makeEdgeKey_def makeWorkflowEdgeKey_def)

lemma same_graph_parts:
  assumes nodes: "list_all2 (\<lambda>n m. node_id n = wn_id m \<and> node_data n = wn_data m)
                    currentNodes (wf_nodes w)"
    and edges: "list_all2 (\<lambda>e c. edge_source e = conn_from c \<and>
                    nullish_or (edge_sourceHandle e) '''' = conn_fromPort c \<and>
                    edge_target e = conn_to c \<and>
                    nullish_or (edge_targetHandle e) '''' = conn_toPort c)
                    currentEdges (wf_connections w)"
  shows "addedNodes (computeWorkflowDiff currentNodes currentEdges nm w) = []"
    and "removedNodes (computeWorkflowDiff currentNodes currentEdges nm w) = []"
    and "modifiedNodes (computeWorkflowDiff currentNodes currentEdges nm w) = []"
    and "addedConnections (computeWorkflowDiff currentNodes currentEdges nm w) = 0"
    and "removedConnections (computeWorkflowDiff currentNodes currentEdges nm w) = 0"
proof -
  let ?d = "computeWorkflowDiff currentNodes currentEdges nm w"
  have ids: "node_id ` set currentNodes = wn_id ` set (wf_nodes w)"
    using nodes by (rule same_nodes_ids)
  have inc_in: "i \<in> node_id ` set currentNodes"
    if "(i, e) \<in> set (build_incomingNodeMap (wf_nodes w))" for i e
  proof -
    from that have "i \<in> fst ` set (build_incomingNodeMap (wf_nodes w))" by force
    then show ?thesis by (simp add: incomingNodeMap_keys ids)
  qed
  have cur_in: "i \<in> wn_id ` set (wf_nodes w)"
    if "(i, n) \<in> set (build_currentNodeMap currentNodes)" for i n
  proof -
    from that have "i \<in> fst ` set (build_currentNodeMap currentNodes)" by force
    then show ?thesis by (simp add: currentNodeMap_keys ids)
  qed
  show "addedNodes ?d = []"
    using inc_in
    by (auto simp: computeWorkflowDiff_def Let_def filter_empty_conv map_has_iff
        currentNodeMap_keys)
  show "removedNodes ?d = []"
    using cur_in
    by (auto simp: computeWorkflowDiff_def Let_def filter_empty_conv map_has_iff
        incomingNodeMap_keys)
  show "modifiedNodes ?d = []"
    using same_nodes_unmodified [OF nodes] by (simp add: computeWorkflowDiff_def Let_def)
  have keys: "map makeEdgeKey currentEdges = map makeWorkflowEdgeKey (wf_connections w)"
    using edges by (rule same_edges_keys)
  show "addedConnections ?d = 0"
    by (simp add: computeWorkflowDiff_def Let_def keys set_has_def)
  show "removedConnections ?d = 0"
    by (simp add: computeWorkflowDiff_def Let_def keys set_has_def)
qed

lemma totalChanges_sum:
  "totalChanges (computeWorkflowDiff ns es nm w) =
     (if nameChange (computeWorkflowDiff ns es nm w) \<noteq> None then 1 else 0) +
     length (addedNodes (computeWorkflowDiff ns es nm w)) +
     length (removedNodes (computeWorkflowDiff ns es nm w)) +
     length (modifiedNodes (computeWorkflowDiff ns es nm w)) +
     addedConnections (computeWorkflowDiff ns es nm w) +
     removedConnections (computeWorkflowDiff ns es nm w)"
  by (simp add: computeWorkflowDiff_def Let_def)

lemma nameChange_eq:
  "nameChange (computeWorkflowDiff ns es nm w) = (if nm \<noteq> wf_name w then Some (nm, wf_name w) else None)"
  by (simp add: computeWorkflowDiff_def Let_def)

text \<open>
  Claim C1. When the proposed workflow has, node for node, the ids and data payloads of the
  baseline nodes, connection for connection the endpoints and ports of the baseline edges
  (an absent handle being the empty port), and the baseline's name, the summary has
  \<open>totalChanges = 0\<close>, no added, removed or modified node, no added or removed
  connection and no name change.
\<close>

theorem computeWorkflowDiff_identical:
  assumes "list_all2 (\<lambda>n m. node_id n = wn_id m \<and> node_data n = wn_data m)
             currentNodes (wf_nodes w)"
    and "list_all2 (\<lambda>e c. edge_source e = conn_from c \<and>
             nullish_or (edge_sourceHandle e) '''' = conn_fromPort c \<and>
             edge_target e = conn_to c \<and>
             nullish_or (edge_targetHandle e) '''' = conn_toPort c)
             currentEdges (wf_connections w)"
    and "wf_name w = currentName"
  shows "totalChanges (computeWorkflowDiff currentNodes currentEdges currentName w) = 0 \<and>
         addedNodes (computeWorkflowDiff currentNodes currentEdges currentName w) = [] \<and>
         removedNodes (computeWorkflowDiff currentNodes currentEdges currentName w) = [] \<and>
         modifiedNodes (computeWorkflowDiff currentNodes currentEdges currentName w) = [] \<and>
         addedConnections (computeWorkflowDiff currentNodes currentEdges currentName w) = 0 \<and>
         removedConnections (computeWorkflowDiff currentNodes currentEdges currentName w) = 0 \<and>
         nameChange (computeWorkflowDiff currentNodes currentEdges currentName w) = None"
  using same_graph_parts [OF assms(1,2), of currentName] assms(3)
  by (simp add: totalChanges_sum nameChange_eq)

theorem computeWorkflowDiff_identical_witness:
  "totalChanges (computeWorkflowDiff [ex_start, ex_prompt] [ex_edge] ''A''
      (ex_workflow ''A'' [ex_wf_start, ex_wf_prompt] [ex_conn])) = 0 \<and>
   modifiedNodes (computeWorkflowDiff [ex_start, ex_prompt] [ex_edge] ''A''
      (ex_workflow ''A'' [ex_wf_start, ex_wf_prompt] [ex_conn])) = [] \<and>
   nameChange (computeWorkflowDiff [ex_start, ex_prompt] [ex_edge] ''A''
      (ex_workflow ''A'' [ex_wf_start, ex_wf_prompt] [ex_conn])) = None"
  using computeWorkflowDiff_identical [of "[ex_start, ex_prompt]"
      "ex_workflow ''A'' [ex_wf_start, ex_wf_prompt] [ex_conn]" "[ex_edge]" "''A''"]
  by (simp add: nullish_or_def)

text \<open>
  Claim C7. With nodes and connections as in C1 and a proposed name different from the
  baseline name, \<open>nameChange\<close> is the pair (baseline name, proposed name) and
  \<open>totalChanges = 1\<close>, which is the sum of 1 for the name change, the lengths of the three
  node lists and the two connection counts.
\<close>

theorem computeWorkflowDiff_rename:
  assumes "list_all2 (\<lambda>n m. node_id n = wn_id m \<and> node_data n = wn_data m)
             currentNodes (wf_nodes w)"
    and "list_all2 (\<lambda>e c. edge_source e = conn_from c \<and>
             nullish_or (edge_sourceHandle e) '''' = conn_fromPort c \<and>
             edge_target e = conn_to c \<and>
             nullish_or (edge_targetHandle e) '''' = conn_toPort c)
             currentEdges (wf_connections w)"
    and "currentName \<noteq> wf_name w"
  shows "nameChange (computeWorkflowDiff currentNodes currentEdges currentName w) =
           Some (currentName, wf_name w) \<and>
         totalChanges (computeWorkflowDiff currentNodes currentEdges currentName w) = 1 \<and>
         totalChanges (computeWorkflowDiff currentNodes currentEdges currentName w) =
           (if nameChange (computeWorkflowDiff currentNodes currentEdges currentName w) \<noteq> None
            then 1 else 0) +
           length (addedNodes (computeWorkflowDiff currentNodes currentEdges currentName w)) +
           length (removedNodes (computeWorkflowDiff currentNodes currentEdges currentName w)) +
           length (modifiedNodes (computeWorkflowDiff currentNodes currentEdges currentName w)) +
           addedConnections (computeWorkflowDiff currentNodes currentEdges currentName w) +
           removedConnections (computeWorkflowDiff currentNodes currentEdges currentName w)"
  using same_graph_parts [OF assms(1,2), of currentName] assms(3)
  by (simp add: totalChanges_sum nameChange_eq)

theorem computeWorkflowDiff_rename_witness:
  "nameChange (computeWorkflowDiff [ex_start, ex_prompt] [ex_edge] ''A''
      (ex_workflow ''B'' [ex_wf_start, ex_wf_prompt] [ex_conn])) = Some (''A'', ''B'') \<and>
   totalChanges (computeWorkflowDiff [ex_start, ex_prompt] [ex_edge] ''A''
      (ex_workflow ''B'' [ex_wf_start, ex_wf_prompt] [ex_conn])) = 1"
  using computeWorkflowDiff_rename [of "[ex_start, ex_prompt]"
      "ex_workflow ''B'' [ex_wf_start, ex_wf_prompt] [ex_conn]" "[ex_edge]" "''A''"]
  by (simp add: nullish_or_def)

text \<open>
  Claim C8. \<open>isNewWorkflow\<close> holds exactly when the baseline has at most two nodes, each
  of type \<open>start\<close> or \<open>end\<close>, and no edge.
\<close>

theorem isNewWorkflow_iff:
  "isNewWorkflow (computeWorkflowDiff currentNodes currentEdges currentName w) =
     (length currentNodes \<le> 2 \<and>
      (\<forall>n \<in> set currentNodes. node_type n = Some ''start'' \<or> node_type n = Some ''end'') \<and>
      currentEdges = [])"
  by (simp add: computeWorkflowDiff_def Let_def list_all_iff)

theorem isNewWorkflow_iff_witness:
  "isNewWorkflow (computeWorkflowDiff [ex_start, ex_end] [] ''A'' (ex_workflow ''A'' [] [])) \<and>
   \<not> isNewWorkflow (computeWorkflowDiff [ex_prompt] [] ''A'' (ex_workflow ''A'' [] [])) \<and>
   \<not> isNewWorkflow (computeWorkflowDiff [ex_start, ex_end] [ex_edge] ''A''
         (ex_workflow ''A'' [] [])) \<and>
   \<not> isNewWorkflow (computeWorkflowDiff [ex_start, ex_end, ex_start] [] ''A''
         (ex_workflow ''A'' [] []))"
  by (simp add: isNewWorkflow_iff)

subsection \<open>Nodes on both sides\<close>

lemma map_of_map_set: "map_of (map_set m k v) = (map_of m)(k \<mapsto> v)"
  by (induction m) auto

text \<open>A Map built by successive \<open>set\<close> holds, under a key, the value of the last element
  with that key.\<close>

lemma map_of_foldl_map_set:
  "map_of (foldl (\<lambda>m x. map_set m (kf x) (vf x)) m0 xs) k =
     (case find (\<lambda>x. kf x = k) (rev xs) of
        Some x \<Rightarrow> Some (vf x)
      | None \<Rightarrow> map_of m0 k)"
proof (induction xs rule: rev_induct)
  case Nil
  then show ?case by simp
next
  case (snoc x xs)
  then show ?case by (simp add: map_of_map_set)
qed

lemma currentNodeMap_lookup:
  "find (\<lambda>x. node_id x = i) (rev ns) = Some n \<Longrightarrow> map_of (build_currentNodeMap ns) i = Some n"
  by (simp add: build_currentNodeMap_def map_of_foldl_map_set)

lemma incomingNodeMap_lookup:
  "find (\<lambda>x. wn_id x = i) (rev ms) = Some m \<Longrightarrow>
   map_of (build_incomingNodeMap ms) i = Some (incoming_entry_of m)"
  by (simp add: build_incomingNodeMap_def map_of_foldl_map_set)

lemma find_member: "find P xs = Some x \<Longrightarrow> x \<in> set xs \<and> P x"
  by (induction xs) (auto split: if_splits)

lemma find_rev_member: "find P (rev xs) = Some x \<Longrightarrow> x \<in> set xs \<and> P x"
  using find_member [of P "rev xs" x] by simp

lemma shared_not_added:
  "i \<in> node_id ` set ns \<Longrightarrow> i \<notin> dn_id ` set (addedNodes (computeWorkflowDiff ns es nm w))"
  by (auto simp: computeWorkflowDiff_def Let_def map_has_iff currentNodeMap_keys)

lemma shared_not_removed:
  "i \<in> wn_id ` set (wf_nodes w) \<Longrightarrow>
   i \<notin> dn_id ` set (removedNodes (computeWorkflowDiff ns es nm w))"
  by (auto simp: computeWorkflowDiff_def Let_def map_has_iff incomingNodeMap_keys)

lemma modified_ids:
  "dn_id ` set (modifiedNodes (computeWorkflowDiff ns es nm w)) =
     {i. \<exists>e. (i, e) \<in> set (build_incomingNodeMap (wf_nodes w)) \<and>
        (\<exists>c. map_of (build_currentNodeMap ns) i = Some c \<and>
           JSON_stringify (node_data c) \<noteq> ie_data e)}"
  by (auto simp: computeWorkflowDiff_def Let_def map_get_def image_iff split: option.splits)

lemma shared_modified_iff:
  assumes n: "find (\<lambda>x. node_id x = i) (rev ns) = Some n"
    and m: "find (\<lambda>x. wn_id x = i) (rev (wf_nodes w)) = Some m"
  shows "(i \<in> dn_id ` set (modifiedNodes (computeWorkflowDiff ns es nm w))) =
         (JSON_stringify (node_data n) \<noteq> JSON_stringify (wn_data m))"
proof -
  have inc: "(i, e) \<in> set (build_incomingNodeMap (wf_nodes w)) \<longleftrightarrow> e = incoming_entry_of m"
    for e
  proof -
    have "(i, e) \<in> set (build_incomingNodeMap (wf_nodes w)) \<longleftrightarrow>
          map_of (build_incomingNodeMap (wf_nodes w)) i = Some e"
      using incomingNodeMap_distinct [of "wf_nodes w"] by (simp add: map_of_eq_Some_iff)
    then show ?thesis by (auto simp: incomingNodeMap_lookup [OF m])
  qed
  show ?thesis
    by (simp add: modified_ids currentNodeMap_lookup [OF n] inc incoming_entry_of_def)
qed

text \<open>
  Claim C9. Let an id occur on both sides, \<open>n\<close> being the last baseline node and
  \<open>m\<close> the last proposed node with it (the nodes the two Maps hold; with unique ids, the
  nodes with that id). The id is among the modified nodes exactly when the serializations
  of the two data payloads differ; it is never among the added or removed nodes; and with
  equal payloads no entry of the three lists bears the id, whatever the types and
  positions of the two nodes are.
\<close>

theorem shared_node_modified_iff_data:
  assumes "find (\<lambda>x. node_id x = i) (rev currentNodes) = Some n"
    and "find (\<lambda>x. wn_id x = i) (rev (wf_nodes w)) = Some m"
  shows "((i \<in> dn_id ` set (modifiedNodes (computeWorkflowDiff currentNodes currentEdges currentName w))) =
            (JSON_stringify (node_data n) \<noteq> JSON_stringify (wn_data m))) \<and>
         i \<notin> dn_id ` set (addedNodes (computeWorkflowDiff currentNodes currentEdges currentName w)) \<and>
         i \<notin> dn_id ` set (removedNodes (computeWorkflowDiff currentNodes currentEdges currentName w)) \<and>
         (node_data n = wn_data m \<longrightarrow>
            filter (\<lambda>x. dn_id x = i)
              (addedNodes (computeWorkflowDiff currentNodes currentEdges currentName w) @
               removedNodes (computeWorkflowDiff currentNodes currentEdges currentName w) @
               modifiedNodes (computeWorkflowDiff currentNodes currentEdges currentName w)) = [])"
proof -
  let ?d = "computeWorkflowDiff currentNodes currentEdges currentName w"
  have "n \<in> set currentNodes \<and> node_id n = i" using assms(1) by (rule find_rev_member)
  then have a: "i \<notin> dn_id ` set (addedNodes ?d)"
    by (intro shared_not_added) force
  have "m \<in> set (wf_nodes w) \<and> wn_id m = i" using assms(2) by (rule find_rev_member)
  then have r: "i \<notin> dn_id ` set (removedNodes ?d)"
    by (intro shared_not_removed) force
  have mo: "(i \<in> dn_id ` set (modifiedNodes ?d)) =
            (JSON_stringify (node_data n) \<noteq> JSON_stringify (wn_data m))"
    using assms by (rule shared_modified_iff)
  have "filter (\<lambda>x. dn_id x = i) (addedNodes ?d @ removedNodes ?d @ modifiedNodes ?d) = []"
    if "node_data n = wn_data m"
  proof -
    from mo that have "i \<notin> dn_id ` set (modifiedNodes ?d)" by simp
    with a r show ?thesis by (auto simp: filter_empty_conv image_iff)
  qed
  with a r mo show ?thesis by blast
qed

theorem shared_node_modified_iff_data_witness:
  "''p'' \<notin> dn_id ` set (modifiedNodes (computeWorkflowDiff [ex_start, ex_prompt] [ex_edge] ''A''
      (ex_workflow ''A'' [ex_wf_start, ex_wf_prompt_moved] [ex_conn]))) \<and>
   filter (\<lambda>x. dn_id x = ''p'')
     (addedNodes (computeWorkflowDiff [ex_start, ex_prompt] [ex_edge] ''A''
        (ex_workflow ''A'' [ex_wf_start, ex_wf_prompt_moved] [ex_conn])) @
      removedNodes (computeWorkflowDiff [ex_start, ex_prompt] [ex_edge] ''A''
        (ex_workflow ''A'' [ex_wf_start, ex_wf_prompt_moved] [ex_conn])) @
      modifiedNodes (computeWorkflowDiff [ex_start, ex_prompt] [ex_edge] ''A''
        (ex_workflow ''A'' [ex_wf_start, ex_wf_prompt_moved] [ex_conn]))) = [] \<and>
   ''s'' \<in> dn_id ` set (modifiedNodes (computeWorkflowDiff [ex_start, ex_prompt] [ex_edge] ''A''
      (ex_workflow ''A'' [ex_wf_start\<lparr>wn_data := Some (JObj [(''label'', JStr ''Begin'')])\<rparr>,
         ex_wf_prompt_moved] [ex_conn])))"
proof -
  have 1: "''p'' \<notin> dn_id ` set (modifiedNodes (computeWorkflowDiff [ex_start, ex_prompt] [ex_edge] ''A''
      (ex_workflow ''A'' [ex_wf_start, ex_wf_prompt_moved] [ex_conn]))) \<and>
   filter (\<lambda>x. dn_id x = ''p'')
     (addedNodes (computeWorkflowDiff [ex_start, ex_prompt] [ex_edge] ''A''
        (ex_workflow ''A'' [ex_wf_start, ex_wf_prompt_moved] [ex_conn])) @
      removedNodes (computeWorkflowDiff [ex_start, ex_prompt] [ex_edge] ''A''
        (ex_workflow ''A'' [ex_wf_start, ex_wf_prompt_moved] [ex_conn])) @
      modifiedNodes (computeWorkflowDiff [ex_start, ex_prompt] [ex_edge] ''A''
        (ex_workflow ''A'' [ex_wf_start, ex_wf_prompt_moved] [ex_conn]))) = []"
    using shared_node_modified_iff_data [of "''p''" "[ex_start, ex_prompt]" ex_prompt
      "ex_workflow ''A'' [ex_wf_start, ex_wf_prompt_moved] [ex_conn]" ex_wf_prompt_moved
      "[ex_edge]" "''A''"]
    by simp
  have "stringify_value (JObj [(''label'', JStr ''Start'')]) \<noteq>
        stringify_value (JObj [(''label'', JStr ''Begin'')])"
    by (simp add: quote_json_def escape_char_def)
  then have 2: "''s'' \<in> dn_id ` set (modifiedNodes (computeWorkflowDiff [ex_start, ex_prompt] [ex_edge] ''A''
      (ex_workflow ''A'' [ex_wf_start\<lparr>wn_data := Some (JObj [(''label'', JStr ''Begin'')])\<rparr>,
         ex_wf_prompt_moved] [ex_conn])))"
    using shared_node_modified_iff_data [of "''s''" "[ex_start, ex_prompt]" ex_start
      "ex_workflow ''A'' [ex_wf_start\<lparr>wn_data := Some (JObj [(''label'', JStr ''Begin'')])\<rparr>,
         ex_wf_prompt_moved] [ex_conn]"
      "ex_wf_start\<lparr>wn_data := Some (JObj [(''label'', JStr ''Begin'')])\<rparr>"
      "[ex_edge]" "''A''"]
    by (simp add: JSON_stringify_def)
  from 1 2 show ?thesis by blast
qed

section \<open>Properties of the process runner\<close>

lemma run_snoc: "run aw (evs @ [e]) = step (run aw evs) e"
  by (simp add: run_def)

lemma run_append: "run aw (evs @ evs') = run (run aw evs) evs'"
  by (simp add: run_def)

lemma run_Cons: "run aw (e # evs) = run (step aw e) evs"
  by (simp add: run_def)

lemma run_Nil: "run aw [] = aw"
  by (simp add: run_def)

lemma stderr_of_append: "stderr_of (evs @ evs') = stderr_of evs @ stderr_of evs'"
  by (induction evs rule: stderr_of.induct) simp_all

lemma step_pending:
  assumes "is_pending_event (snd e)"
  shows "at_requestId (fst (step aw e)) = at_requestId (fst aw)"
    and "at_timeoutMs (fst (step aw e)) = at_timeoutMs (fst aw)"
    and "at_startTime (fst (step aw e)) = at_startTime (fst aw)"
    and "at_process (fst (step aw e)) = at_process (fst aw)"
    and "at_timedOut (fst (step aw e)) = at_timedOut (fst aw)"
    and "at_timer_armed (fst (step aw e)) = at_timer_armed (fst aw)"
    and "at_resolved (fst (step aw e)) = at_resolved (fst aw)"
    and "at_stderr (fst (step aw e)) =
           at_stderr (fst aw) @ stderr_of [e]"
  using assms
  by (cases aw; cases e; cases "snd e"; simp split: list.splits)+

lemma run_pending:
  assumes "\<forall>e \<in> set evs. is_pending_event (snd e)"
  shows "at_requestId (fst (run aw evs)) = at_requestId (fst aw) \<and>
         at_timeoutMs (fst (run aw evs)) = at_timeoutMs (fst aw) \<and>
         at_startTime (fst (run aw evs)) = at_startTime (fst aw) \<and>
         at_process (fst (run aw evs)) = at_process (fst aw) \<and>
         at_timedOut (fst (run aw evs)) = at_timedOut (fst aw) \<and>
         at_timer_armed (fst (run aw evs)) = at_timer_armed (fst aw) \<and>
         at_resolved (fst (run aw evs)) = at_resolved (fst aw) \<and>
         at_stderr (fst (run aw evs)) = at_stderr (fst aw) @ stderr_of evs"
  using assms
proof (induction evs rule: rev_induct)
  case Nil
  then show ?case by (simp add: run_Nil)
next
  case (snoc e evs)
  then have p: "is_pending_event (snd e)" and IH: "\<forall>e \<in> set evs. is_pending_event (snd e)"
    by simp_all
  show ?case
    using snoc.IH [OF IH] by (simp add: run_snoc step_pending [OF p] stderr_of_append)
qed

lemma start_attempt:
  "fst (executeClaudeCodeCLI_start prompt timeoutMs requestId wd now0 cwd ref child w) =
     \<lparr>at_requestId = requestId, at_timeoutMs = timeoutMs, at_startTime = now0,
      at_process = ref, at_stdout = [], at_stderr = [], at_timedOut = False,
      at_timer_armed = True, at_resolved = []\<rparr>"
  by (simp add: executeClaudeCodeCLI_start_def Let_def)

lemma step_resolved_grows: "\<exists>rs. at_resolved (fst (step aw e)) = at_resolved (fst aw) @ rs"
  by (cases aw; cases e; cases "snd e")
     (auto simp: on_timeout_def on_error_def on_exit_def resolve_def Let_def split: list.splits)

lemma run_resolved_grows: "\<exists>rs. at_resolved (fst (run aw evs)) = at_resolved (fst aw) @ rs"
proof (induction evs rule: rev_induct)
  case Nil
  then show ?case by (simp add: run_Nil)
next
  case (snoc e evs)
  then obtain rs where rs: "at_resolved (fst (run aw evs)) = at_resolved (fst aw) @ rs" by blast
  obtain rs' where "at_resolved (fst (step (run aw evs) e)) = at_resolved (fst (run aw evs)) @ rs'"
    using step_resolved_grows by blast
  with rs show ?case by (simp add: run_snoc)
qed

lemma promise_value_stable:
  assumes "promise_value (fst aw) = Some r"
  shows "promise_value (fst (run aw evs)) = Some r"
proof -
  obtain rs where "at_resolved (fst (run aw evs)) = at_resolved (fst aw) @ rs"
    using run_resolved_grows by blast
  with assms show ?thesis by (auto simp: promise_value_def split: list.splits)
qed

lemma on_exit_nonzero:
  assumes "\<not> at_timedOut a" and "code \<noteq> Some 0"
  shows "at_resolved (fst (on_exit now code (a, w))) = at_resolved a @
           [\<lparr>res_success = False, res_output = None,
             res_error = Some
               \<lparr>err_code = UNKNOWN_ERROR,
                err_message = ''Generation failed - please try again or rephrase your description'',
                err_details = Some (''Exit code: '' @ show_code code @ '', stderr: '' @ at_stderr a)\<rparr>,
             res_executionTimeMs = now - at_startTime a\<rparr>]"
    and "last (logs (snd (on_exit now code (a, w)))) =
           \<lparr>log_level = ERROR, log_message = ''Claude Code CLI execution failed'',
            log_data = [(''exitCode'', map_option JNum code),
                        (''executionTimeMs'', Some (JNum (now - at_startTime a))),
                        (''stderr'', Some (JStr (take 200 (at_stderr a))))]\<rparr>"
  using assms by (simp_all add: on_exit_def Let_def resolve_def log_def)

lemma exit_nonzero_run:
  assumes pre: "\<forall>e \<in> set pre. is_pending_event (snd e)" and code: "code \<noteq> Some 0"
  shows "promise_value (fst (run
           (executeClaudeCodeCLI_start prompt timeoutMs requestId wd now0 cwd ref child w)
           (pre @ (t, ProcessExit code) # post))) =
         Some \<lparr>res_success = False, res_output = None,
               res_error = Some
                 \<lparr>err_code = UNKNOWN_ERROR,
                  err_message = ''Generation failed - please try again or rephrase your description'',
                  err_details = Some (''Exit code: '' @ show_code code @ '', stderr: '' @ stderr_of pre)\<rparr>,
               res_executionTimeMs = t - now0\<rparr>"
    and "last (logs (snd (run
           (executeClaudeCodeCLI_start prompt timeoutMs requestId wd now0 cwd ref child w)
           (pre @ [(t, ProcessExit code)])))) =
         \<lparr>log_level = ERROR, log_message = ''Claude Code CLI execution failed'',
          log_data = [(''exitCode'', map_option JNum code),
                      (''executionTimeMs'', Some (JNum (t - now0))),
                      (''stderr'', Some (JStr (take 200 (stderr_of pre))))]\<rparr>"
proof -
  let ?s = "executeClaudeCodeCLI_start prompt timeoutMs requestId wd now0 cwd ref child w"
  obtain a w1 where aw: "run ?s pre = (a, w1)" by (cases "run ?s pre")
  have a: "\<not> at_timedOut a" "at_resolved a = []" "at_stderr a = stderr_of pre"
    "at_startTime a = now0"
    using run_pending [OF pre, of ?s] by (simp_all add: aw start_attempt)
  let ?w2 = "w1\<lparr>processes := (processes w1)
              (at_process a := (processes w1 (at_process a))\<lparr>cp_running := False\<rparr>)\<rparr>"
  have st: "step (a, w1) (t, ProcessExit code) = on_exit t code (a, ?w2)" by simp
  have "promise_value (fst (on_exit t code (a, ?w2))) =
         Some \<lparr>res_success = False, res_output = None,
               res_error = Some
                 \<lparr>err_code = UNKNOWN_ERROR,
                  err_message = ''Generation failed - please try again or rephrase your description'',
                  err_details = Some (''Exit code: '' @ show_code code @ '', stderr: '' @ stderr_of pre)\<rparr>,
               res_executionTimeMs = t - now0\<rparr>"
    using on_exit_nonzero(1) [OF a(1) code, of t ?w2] a by (simp add: promise_value_def)
  then show "promise_value (fst (run ?s (pre @ (t, ProcessExit code) # post))) =
         Some \<lparr>res_success = False, res_output = None,
               res_error = Some
                 \<lparr>err_code = UNKNOWN_ERROR,
                  err_message = ''Generation failed - please try again or rephrase your description'',
                  err_details = Some (''Exit code: '' @ show_code code @ '', stderr: '' @ stderr_of pre)\<rparr>,
               res_executionTimeMs = t - now0\<rparr>"
    by (simp only: run_append run_Cons aw st promise_value_stable)
  show "last (logs (snd (run ?s (pre @ [(t, ProcessExit code)])))) =
         \<lparr>log_level = ERROR, log_message = ''Claude Code CLI execution failed'',
          log_data = [(''exitCode'', map_option JNum code),
                      (''executionTimeMs'', Some (JNum (t - now0))),
                      (''stderr'', Some (JStr (take 200 (stderr_of pre))))]\<rparr>"
    using on_exit_nonzero(2) [OF a(1) code, of t ?w2] a
    by (simp only: run_append run_Cons run_Nil aw st)
qed

text \<open>
  Claim C6, as the code has it. When the process exits with a code other than 0 (or with
  no code, killed by a signal) after output events and cancel calls only, so that the
  attempt has neither timed out nor seen a process error, the promise settles with
  \<open>success = false\<close>, error code \<open>UNKNOWN_ERROR\<close> and the details
  \<open>Exit code: <code>, stderr: <stderr>\<close> holding everything written to stderr; later
  events do not change it. Only the log entry of the failure is cut to the first 200
  characters of stderr.
\<close>

theorem exit_nonzero_unknown_error:
  assumes "\<forall>e \<in> set pre. is_pending_event (snd e)" and "code \<noteq> Some 0"
  shows "promise_value (fst (run
           (executeClaudeCodeCLI_start prompt timeoutMs requestId wd now0 cwd ref child w)
           (pre @ (t, ProcessExit code) # post))) =
         Some \<lparr>res_success = False, res_output = None,
               res_error = Some
                 \<lparr>err_code = UNKNOWN_ERROR,
                  err_message = ''Generation failed - please try again or rephrase your description'',
                  err_details = Some (''Exit code: '' @ show_code code @ '', stderr: '' @ stderr_of pre)\<rparr>,
               res_executionTimeMs = t - now0\<rparr> \<and>
         last (logs (snd (run
           (executeClaudeCodeCLI_start prompt timeoutMs requestId wd now0 cwd ref child w)
           (pre @ [(t, ProcessExit code)])))) =
         \<lparr>log_level = ERROR, log_message = ''Claude Code CLI execution failed'',
          log_data = [(''exitCode'', map_option JNum code),
                      (''executionTimeMs'', Some (JNum (t - now0))),
                      (''stderr'', Some (JStr (take 200 (stderr_of pre))))]\<rparr>"
  using exit_nonzero_run [OF assms] by simp

lemma show_code_1: "show_code (Some 1) = ''1''"
  by (simp add: show_code_def show_int_def show_nat.simps digit_char_def)

theorem exit_nonzero_unknown_error_witness:
  "promise_value (fst (run ex_started
      [(1010, StdoutData ''partial''), (1020, StderrData ''boom''), (1030, ProcessExit (Some 1)),
       (1031, ProcessError None ''late'')])) =
     Some \<lparr>res_success = False, res_output = None,
           res_error = Some
             \<lparr>err_code = UNKNOWN_ERROR,
              err_message = ''Generation failed - please try again or rephrase your description'',
              err_details = Some ''Exit code: 1, stderr: boom''\<rparr>,
           res_executionTimeMs = 30\<rparr>"
  using exit_nonzero_unknown_error [of
      "[(1010, StdoutData ''partial''), (1020, StderrData ''boom'')]" "Some 1"
      "''Add a node''" 50 "Some ''req-1''" None 1000 "''/home''" 7 ex_child ex_world 1030
      "[(1031, ProcessError None ''late'')]"]
  by (simp add: show_code_1)

text \<open>
  Claim C6 as stated fails: with 201 characters on stderr, the details hold all 201 of
  them, not a prefix of 200.
\<close>

theorem exit_details_unbounded_counterexample:
  "promise_value (fst (run ex_started
      [(1020, StderrData (replicate 201 (CHR ''x''))), (1030, ProcessExit (Some 1))])) =
     Some \<lparr>res_success = False, res_output = None,
           res_error = Some
             \<lparr>err_code = UNKNOWN_ERROR,
              err_message = ''Generation failed - please try again or rephrase your description'',
              err_details = Some (''Exit code: 1, stderr: '' @ replicate 201 (CHR ''x''))\<rparr>,
           res_executionTimeMs = 30\<rparr> \<and>
   ''Exit code: 1, stderr: '' @ replicate 201 (CHR ''x'') \<noteq>
   ''Exit code: 1, stderr: '' @ take 200 (replicate 201 (CHR ''x''))"
proof -
  have "\<forall>e \<in> set [(1020 :: int, StderrData (replicate 201 (CHR ''x'')))]. is_pending_event (snd e)"
    by simp
  from exit_nonzero_run(1) [OF this, of "Some 1" "''Add a node''" 50 "Some ''req-1''" None 1000
      "''/home''" 7 ex_child ex_world 1030 "[]"]
  show ?thesis by (simp add: show_code_1)
qed

lemma map_delete_keys: "fst ` set (map_delete m k) = fst ` set m - {k}"
  by (auto simp: map_delete_def image_iff) 

lemma map_get_None_iff: "map_get m k = None \<longleftrightarrow> k \<notin> fst ` set m"
  by (simp add: map_get_def map_of_eq_None_iff)

lemma cancelGeneration_keys:
  "fst ` set (activeProcesses (snd (cancelGeneration now r w))) \<subseteq> fst ` set (activeProcesses w)"
  by (auto simp: cancelGeneration_def Let_def log_def process_kill_def map_delete_def
      split: option.splits)

lemma cancelRefinement_keys:
  "fst ` set (activeProcesses (snd (cancelRefinement now r w))) \<subseteq> fst ` set (activeProcesses w)"
  by (auto simp: cancelRefinement_def Let_def log_def process_kill_def map_delete_def
      split: option.splits)

lemma if_requestId_delete_keys:
  "fst ` set (activeProcesses (if_requestId rq
      (\<lambda>r v. log lv (msg r) [] (v\<lparr>activeProcesses := map_delete (activeProcesses v) r\<rparr>)) w))
   \<subseteq> fst ` set (activeProcesses w)"
  by (auto simp: if_requestId_def log_def map_delete_def split: option.splits)

text \<open>Once timed out: the attempt stays timed out and disarmed, nothing more is resolved,
  and the registry only shrinks.\<close>

lemma step_timed_out:
  assumes "at_timedOut (fst aw)" and "\<not> at_timer_armed (fst aw)"
  shows "at_timedOut (fst (step aw e)) \<and> \<not> at_timer_armed (fst (step aw e)) \<and>
         at_resolved (fst (step aw e)) = at_resolved (fst aw) \<and>
         fst ` set (activeProcesses (snd (step aw e))) \<subseteq> fst ` set (activeProcesses (snd aw))"
proof (cases aw)
  case (Pair a w)
  obtain now ev where e: "e = (now, ev)" by (cases e)
  show ?thesis
  proof (cases ev)
    case (ProcessError c m)
    then show ?thesis
      using assms if_requestId_delete_keys [of "at_requestId a"
          INFO "\<lambda>r. ''Removed active process (error) for requestId: '' @ r" w]
      by (simp add: Pair e on_error_def Let_def)
  next
    case (ProcessExit c)
    then show ?thesis
      using assms if_requestId_delete_keys [of "at_requestId a"
          INFO "\<lambda>r. ''Removed active process (exit) for requestId: '' @ r"
          "w\<lparr>processes := (processes w)
              (at_process a := (processes w (at_process a))\<lparr>cp_running := False\<rparr>)\<rparr>"]
      by (simp add: Pair e on_exit_def Let_def)
  next
    case (CancelGeneration r)
    then show ?thesis using assms cancelGeneration_keys [of now r w] by (simp add: Pair e)
  next
    case (CancelRefinement r)
    then show ?thesis using assms cancelRefinement_keys [of now r w] by (simp add: Pair e)
  next
    case KillTimerFired
    then show ?thesis using assms
      by (simp add: Pair e fire_kill_timer_def log_def process_kill_def split: list.splits)
  qed (use assms in \<open>simp_all add: Pair e\<close>)
qed

lemma run_timed_out:
  assumes "at_timedOut (fst aw)" and "\<not> at_timer_armed (fst aw)"
  shows "at_timedOut (fst (run aw evs)) \<and> \<not> at_timer_armed (fst (run aw evs)) \<and>
         at_resolved (fst (run aw evs)) = at_resolved (fst aw) \<and>
         fst ` set (activeProcesses (snd (run aw evs))) \<subseteq> fst ` set (activeProcesses (snd aw))"
proof (induction evs rule: rev_induct)
  case Nil
  then show ?case using assms by (simp add: run_Nil)
next
  case (snoc e evs)
  then have t: "at_timedOut (fst (run aw evs))" and d: "\<not> at_timer_armed (fst (run aw evs))"
    by simp_all
  from step_timed_out [OF t d, of e] snoc.IH show ?case
    by (auto simp: run_snoc)
qed

lemma on_timeout_effect:
  assumes "at_requestId a = Some r" and "r \<noteq> []"
  shows "at_timedOut (fst (on_timeout now (a, w)))"
    and "at_timer_armed (fst (on_timeout now (a, w))) = at_timer_armed a"
    and "at_resolved (fst (on_timeout now (a, w))) = at_resolved a @
           [\<lparr>res_success = False, res_output = None,
             res_error = Some
               \<lparr>err_code = TIMEOUT,
                err_message = ''AI generation timed out after '' @
                  show_int (at_timeoutMs a div 1000) @
                  '' seconds. Try simplifying your description.'',
                err_details = Some (''Timeout after '' @ show_int (at_timeoutMs a) @ ''ms'')\<rparr>,
             res_executionTimeMs = now - at_startTime a\<rparr>]"
    and "r \<notin> fst ` set (activeProcesses (snd (on_timeout now (a, w))))"
  using assms
  by (simp_all add: on_timeout_def Let_def resolve_def if_requestId_def log_def process_kill_def
      map_delete_keys)

lemma timeout_run:
  assumes r: "requestId \<noteq> []" and pre: "\<forall>e \<in> set pre. is_pending_event (snd e)"
  shows "at_resolved (fst (run
           (executeClaudeCodeCLI_start prompt timeoutMs (Some requestId) wd now0 cwd ref child w)
           (pre @ (t, TimeoutFired) # post))) =
         [\<lparr>res_success = False, res_output = None,
           res_error = Some
             \<lparr>err_code = TIMEOUT,
              err_message = ''AI generation timed out after '' @ show_int (timeoutMs div 1000) @
                '' seconds. Try simplifying your description.'',
              err_details = Some (''Timeout after '' @ show_int timeoutMs @ ''ms'')\<rparr>,
           res_executionTimeMs = t - now0\<rparr>]"
    and "requestId \<notin> fst ` set (activeProcesses (snd (run
           (executeClaudeCodeCLI_start prompt timeoutMs (Some requestId) wd now0 cwd ref child w)
           (pre @ (t, TimeoutFired) # post))))"
proof -
  let ?s = "executeClaudeCodeCLI_start prompt timeoutMs (Some requestId) wd now0 cwd ref child w"
  obtain a w1 where aw: "run ?s pre = (a, w1)" by (cases "run ?s pre")
  have a: "at_timer_armed a" "at_resolved a = []" "at_requestId a = Some requestId"
    "at_startTime a = now0" "at_timeoutMs a = timeoutMs"
    using run_pending [OF pre, of ?s] by (simp_all add: aw start_attempt)
  let ?a1 = "a\<lparr>at_timer_armed := False\<rparr>"
  have st: "step (a, w1) (t, TimeoutFired) = on_timeout t (?a1, w1)" using a(1) by simp
  have a1: "at_requestId ?a1 = Some requestId" using a(3) by simp
  note eff = on_timeout_effect [OF a1 r, of t w1]
  have to: "at_timedOut (fst (on_timeout t (?a1, w1)))"
    and da: "\<not> at_timer_armed (fst (on_timeout t (?a1, w1)))"
    using eff(1,2) by simp_all
  note inv = run_timed_out [OF to da, of post]
  have full: "run ?s (pre @ (t, TimeoutFired) # post) = run (on_timeout t (?a1, w1)) post"
    by (simp only: run_append run_Cons aw st)
  show "at_resolved (fst (run ?s (pre @ (t, TimeoutFired) # post))) =
         [\<lparr>res_success = False, res_output = None,
           res_error = Some
             \<lparr>err_code = TIMEOUT,
              err_message = ''AI generation timed out after '' @ show_int (timeoutMs div 1000) @
                '' seconds. Try simplifying your description.'',
              err_details = Some (''Timeout after '' @ show_int timeoutMs @ ''ms'')\<rparr>,
           res_executionTimeMs = t - now0\<rparr>]"
    using inv eff(3) a by (simp add: full)
  show "requestId \<notin> fst ` set (activeProcesses (snd (run ?s (pre @ (t, TimeoutFired) # post))))"
    using inv eff(4) unfolding full by blast
qed

lemma cancelGeneration_absent:
  "requestId \<notin> fst ` set (activeProcesses w) \<Longrightarrow>
   fst (cancelGeneration now requestId w) = \<lparr>cancelled = False, cancel_executionTimeMs = None\<rparr>"
  by (simp add: cancelGeneration_def map_get_None_iff [symmetric])

text \<open>
  Claim C5. When the timeout fires after output events and cancel calls only (no exit, no
  error before it), \<open>resolve\<close> is called exactly once in the whole run, with error code
  \<open>TIMEOUT\<close>, whatever events follow; and a cancel for the same request id after the run
  returns \<open>cancelled = false\<close>.
\<close>

theorem timeout_resolves_once:
  assumes "requestId \<noteq> []" and "\<forall>e \<in> set pre. is_pending_event (snd e)"
  shows "at_resolved (fst (run
           (executeClaudeCodeCLI_start prompt timeoutMs (Some requestId) wd now0 cwd ref child w)
           (pre @ (t, TimeoutFired) # post))) =
         [\<lparr>res_success = False, res_output = None,
           res_error = Some
             \<lparr>err_code = TIMEOUT,
              err_message = ''AI generation timed out after '' @ show_int (timeoutMs div 1000) @
                '' seconds. Try simplifying your description.'',
              err_details = Some (''Timeout after '' @ show_int timeoutMs @ ''ms'')\<rparr>,
           res_executionTimeMs = t - now0\<rparr>] \<and>
         fst (cancelGeneration t' requestId (snd (run
           (executeClaudeCodeCLI_start prompt timeoutMs (Some requestId) wd now0 cwd ref child w)
           (pre @ (t, TimeoutFired) # post)))) =
         \<lparr>cancelled = False, cancel_executionTimeMs = None\<rparr>"
  using timeout_run [OF assms] by (simp add: cancelGeneration_absent)

theorem timeout_resolves_once_witness:
  "map (\<lambda>r. map_option err_code (res_error r))
     (at_resolved (fst (run ex_started
        [(1010, StdoutData ''partial''), (1050, TimeoutFired), (1060, ProcessExit None),
         (1061, ProcessError (Some ''EPERM'') ''kill EPERM''), (1062, TimeoutFired)]))) =
     [Some TIMEOUT] \<and>
   fst (cancelGeneration 1070 ''req-1'' (snd (run ex_started
        [(1010, StdoutData ''partial''), (1050, TimeoutFired), (1060, ProcessExit None),
         (1061, ProcessError (Some ''EPERM'') ''kill EPERM''), (1062, TimeoutFired)]))) =
     \<lparr>cancelled = False, cancel_executionTimeMs = None\<rparr>"
  using timeout_resolves_once [of "''req-1''" "[(1010, StdoutData ''partial'')]"
      "''Add a node''" 50 None 1000 "''/home''" 7 ex_child ex_world 1050
      "[(1060, ProcessExit None), (1061, ProcessError (Some ''EPERM'') ''kill EPERM''),
        (1062, TimeoutFired)]" 1070]
  by simp

lemma cancel_absent:
  assumes "map_get (activeProcesses w) requestId = None"
  shows "fst (cancelGeneration now requestId w) = \<lparr>cancelled = False, cancel_executionTimeMs = None\<rparr>"
    and "fst (cancelRefinement now requestId w) = \<lparr>cancelled = False, cancel_executionTimeMs = None\<rparr>"
    and "activeProcesses (snd (cancelGeneration now requestId w)) = activeProcesses w"
    and "activeProcesses (snd (cancelRefinement now requestId w)) = activeProcesses w"
    and "processes (snd (cancelGeneration now requestId w)) = processes w"
    and "processes (snd (cancelRefinement now requestId w)) = processes w"
    and "kill_timers (snd (cancelGeneration now requestId w)) = kill_timers w"
    and "kill_timers (snd (cancelRefinement now requestId w)) = kill_timers w"
  using assms by (simp_all add: cancelGeneration_def cancelRefinement_def log_def)

lemma cancel_present:
  assumes "map_get (activeProcesses w) requestId = Some e"
  shows "fst (cancelGeneration now requestId w) =
           \<lparr>cancelled = True, cancel_executionTimeMs = Some (now - ae_startTime e)\<rparr>"
    and "fst (cancelRefinement now requestId w) =
           \<lparr>cancelled = True, cancel_executionTimeMs = Some (now - ae_startTime e)\<rparr>"
    and "activeProcesses (snd (cancelGeneration now requestId w)) =
           map_delete (activeProcesses w) requestId"
    and "activeProcesses (snd (cancelRefinement now requestId w)) =
           map_delete (activeProcesses w) requestId"
    and "processes (snd (cancelGeneration now requestId w)) =
           (processes w)(ae_process e := kill SIGTERM (processes w (ae_process e)))"
    and "processes (snd (cancelRefinement now requestId w)) =
           (processes w)(ae_process e := kill SIGTERM (processes w (ae_process e)))"
    and "kill_timers (snd (cancelGeneration now requestId w)) = kill_timers w @
           [\<lparr>kt_delay = 500, kt_process = ae_process e,
             kt_warning = ''Forcefully killed process for requestId: '' @ requestId\<rparr>]"
    and "kill_timers (snd (cancelRefinement now requestId w)) = kill_timers w @
           [\<lparr>kt_delay = 500, kt_process = ae_process e,
             kt_warning = ''Forcefully killed refinement process for requestId: '' @ requestId\<rparr>]"
  using assms
  by (simp_all add: cancelGeneration_def cancelRefinement_def log_def process_kill_def Let_def)

lemma fire_kill_timer_processes:
  "processes (fire_kill_timer t w) =
     (if cp_killed (processes w (kt_process t)) then processes w
      else (processes w)(kt_process t := kill SIGKILL (processes w (kt_process t))))"
  by (simp add: fire_kill_timer_def log_def process_kill_def)

text \<open>
  The two cancel functions return the same result and leave the same registry, the same
  process objects and force-kill timers of the same delay, target and effect; they differ
  in what they log. On an absent id both return \<open>cancelled = false\<close> and change nothing
  but the log; on a present id both send \<open>SIGTERM\<close>, arm a timer of 500 ms, delete the
  entry and return \<open>cancelled = true\<close> with the elapsed time.
\<close>

lemma cancel_functions_agree:
  "fst (cancelGeneration now requestId w) = fst (cancelRefinement now requestId w) \<and>
   activeProcesses (snd (cancelGeneration now requestId w)) =
     activeProcesses (snd (cancelRefinement now requestId w)) \<and>
   processes (snd (cancelGeneration now requestId w)) =
     processes (snd (cancelRefinement now requestId w)) \<and>
   map (\<lambda>t. (kt_delay t, kt_process t, processes (fire_kill_timer t v)))
     (kill_timers (snd (cancelGeneration now requestId w))) =
   map (\<lambda>t. (kt_delay t, kt_process t, processes (fire_kill_timer t v)))
     (kill_timers (snd (cancelRefinement now requestId w))) \<and>
   (map_get (activeProcesses w) requestId = None \<longrightarrow>
      fst (cancelGeneration now requestId w) =
        \<lparr>cancelled = False, cancel_executionTimeMs = None\<rparr> \<and>
      activeProcesses (snd (cancelGeneration now requestId w)) = activeProcesses w \<and>
      processes (snd (cancelGeneration now requestId w)) = processes w \<and>
      kill_timers (snd (cancelGeneration now requestId w)) = kill_timers w) \<and>
   (\<forall>e. map_get (activeProcesses w) requestId = Some e \<longrightarrow>
      fst (cancelGeneration now requestId w) =
        \<lparr>cancelled = True, cancel_executionTimeMs = Some (now - ae_startTime e)\<rparr> \<and>
      processes (snd (cancelGeneration now requestId w)) =
        (processes w)(ae_process e := kill SIGTERM (processes w (ae_process e))) \<and>
      map (\<lambda>t. (kt_delay t, kt_process t)) (kill_timers (snd (cancelGeneration now requestId w))) =
        map (\<lambda>t. (kt_delay t, kt_process t)) (kill_timers w) @ [(500, ae_process e)] \<and>
      activeProcesses (snd (cancelGeneration now requestId w)) =
        map_delete (activeProcesses w) requestId)"
proof (cases "map_get (activeProcesses w) requestId")
  case None
  show ?thesis by (simp add: cancel_absent [OF None] None)
next
  case (Some e)
  show ?thesis by (simp add: cancel_present [OF Some] Some fire_kill_timer_processes)
qed

subsection \<open>The forced kill after a cancel\<close>

text \<open>A process object that is marked \<open>killed\<close> and has received no \<open>SIGKILL\<close> stays so,
  whatever happens.\<close>

lemma kill_SIGTERM_keeps:
  "cp_killed p \<and> SIGKILL \<notin> set (cp_signals p) \<Longrightarrow>
   cp_killed (kill SIGTERM p) \<and> SIGKILL \<notin> set (cp_signals (kill SIGTERM p))"
  by (simp add: kill_def)

lemma process_kill_SIGTERM_keeps:
  assumes "cp_killed (processes v r) \<and> SIGKILL \<notin> set (cp_signals (processes v r))"
  shows "cp_killed (processes (process_kill r' SIGTERM v) r) \<and>
         SIGKILL \<notin> set (cp_signals (processes (process_kill r' SIGTERM v) r))"
  using assms kill_SIGTERM_keeps [of "processes v r"] by (auto simp: process_kill_def)

lemma fire_kill_timer_keeps:
  assumes "cp_killed (processes v r) \<and> SIGKILL \<notin> set (cp_signals (processes v r))"
  shows "cp_killed (processes (fire_kill_timer t v) r) \<and>
         SIGKILL \<notin> set (cp_signals (processes (fire_kill_timer t v) r))"
  using assms by (auto simp: fire_kill_timer_def log_def process_kill_def)

lemma cancelGeneration_processes:
  "processes (snd (cancelGeneration now requestId v)) =
     (case map_get (activeProcesses v) requestId of
        None \<Rightarrow> processes v
      | Some e \<Rightarrow> processes (process_kill (ae_process e) SIGTERM v))"
  by (simp add: cancelGeneration_def Let_def log_def process_kill_def split: option.splits)

lemma cancelRefinement_processes:
  "processes (snd (cancelRefinement now requestId v)) =
     (case map_get (activeProcesses v) requestId of
        None \<Rightarrow> processes v
      | Some e \<Rightarrow> processes (process_kill (ae_process e) SIGTERM v))"
  by (simp add: cancelRefinement_def Let_def log_def process_kill_def split: option.splits)

lemma if_requestId_processes:
  "processes (if_requestId rq
      (\<lambda>r v. log lv (msg r) dat (v\<lparr>activeProcesses := f r v\<rparr>)) v) = processes v"
  by (simp add: if_requestId_def log_def split: option.splits)

lemma on_timeout_processes:
  "processes (snd (on_timeout now (a, v))) = processes (process_kill (at_process a) SIGTERM v)"
  by (simp add: on_timeout_def Let_def log_def if_requestId_def process_kill_def
      split: option.splits)

lemma on_error_processes: "processes (snd (on_error now c m (a, v))) = processes v"
  by (simp add: on_error_def Let_def log_def if_requestId_def split: option.splits)

lemma on_exit_processes: "processes (snd (on_exit now c (a, v))) = processes v"
  by (simp add: on_exit_def Let_def log_def if_requestId_def split: option.splits)

lemma step_keeps:
  assumes "cp_killed (processes (snd aw) r) \<and> SIGKILL \<notin> set (cp_signals (processes (snd aw) r))"
  shows "cp_killed (processes (snd (step aw e)) r) \<and>
         SIGKILL \<notin> set (cp_signals (processes (snd (step aw e)) r))"
proof (cases aw)
  case (Pair a v)
  obtain now ev where e: "e = (now, ev)" by (cases e)
  from assms have k: "cp_killed (processes v r) \<and> SIGKILL \<notin> set (cp_signals (processes v r))"
    by (simp add: Pair)
  show ?thesis
  proof (cases ev)
    case TimeoutFired
    then show ?thesis
      using k process_kill_SIGTERM_keeps [OF k, of "at_process a"]
      by (auto simp: Pair e on_timeout_processes)
  next
    case (ProcessError c m)
    then show ?thesis using k by (auto simp: Pair e on_error_processes)
  next
    case (ProcessExit c)
    then show ?thesis using k by (auto simp: Pair e on_exit_processes)
  next
    case (CancelGeneration rq)
    then show ?thesis
      using k process_kill_SIGTERM_keeps [OF k]
      by (auto simp: Pair e cancelGeneration_processes split: option.splits)
  next
    case (CancelRefinement rq)
    then show ?thesis
      using k process_kill_SIGTERM_keeps [OF k]
      by (auto simp: Pair e cancelRefinement_processes split: option.splits)
  next
    case KillTimerFired
    show ?thesis
    proof (cases "kill_timers v")
      case Nil
      then show ?thesis using k KillTimerFired by (simp add: Pair e)
    next
      case (Cons t ts)
      have "cp_killed (processes (v\<lparr>kill_timers := ts\<rparr>) r) \<and>
            SIGKILL \<notin> set (cp_signals (processes (v\<lparr>kill_timers := ts\<rparr>) r))"
        using k by simp
      from fire_kill_timer_keeps [OF this, of t] show ?thesis
        using KillTimerFired Cons by (simp add: Pair e)
    qed
  qed (use k in \<open>simp_all add: Pair e\<close>)
qed

lemma run_keeps:
  assumes "cp_killed (processes (snd aw) r) \<and> SIGKILL \<notin> set (cp_signals (processes (snd aw) r))"
  shows "cp_killed (processes (snd (run aw evs)) r) \<and>
         SIGKILL \<notin> set (cp_signals (processes (snd (run aw evs)) r))"
proof (induction evs rule: rev_induct)
  case Nil
  then show ?case using assms by (simp add: run_Nil)
next
  case (snoc e evs)
  from step_keeps [OF snoc.IH, of e] show ?case by (simp add: run_snoc)
qed

text \<open>
  Claim C10 has both functions schedule a \<open>SIGKILL\<close> after the grace period of 500 ms,
  and the comment of the source says the same: force kill if the process does not
  terminate. The code does not do it. For a request id whose process is running, each of
  the two functions delivers \<open>SIGTERM\<close> and arms its timer, but \<open>SIGTERM\<close> has marked the
  process object \<open>killed\<close>, which is what the callback of the timer tests: whatever
  happens afterwards, the firing of the timer included, the process never receives
  \<open>SIGKILL\<close>.
\<close>

theorem cancel_never_sends_SIGKILL:
  assumes "map_get (activeProcesses w) requestId = Some e"
    and "cp_running (processes w (ae_process e))"
    and "SIGKILL \<notin> set (cp_signals (processes w (ae_process e)))"
  shows "kill_timers (snd (cancelGeneration now requestId w)) = kill_timers w @
           [\<lparr>kt_delay = 500, kt_process = ae_process e,
             kt_warning = ''Forcefully killed process for requestId: '' @ requestId\<rparr>] \<and>
         kill_timers (snd (cancelRefinement now requestId w)) = kill_timers w @
           [\<lparr>kt_delay = 500, kt_process = ae_process e,
             kt_warning = ''Forcefully killed refinement process for requestId: '' @ requestId\<rparr>] \<and>
         cp_signals (processes (snd (cancelGeneration now requestId w)) (ae_process e)) =
           cp_signals (processes w (ae_process e)) @ [SIGTERM] \<and>
         cp_signals (processes (snd (cancelRefinement now requestId w)) (ae_process e)) =
           cp_signals (processes w (ae_process e)) @ [SIGTERM] \<and>
         SIGKILL \<notin> set (cp_signals
           (processes (snd (run (a, snd (cancelGeneration now requestId w)) evs)) (ae_process e))) \<and>
         SIGKILL \<notin> set (cp_signals
           (processes (snd (run (a, snd (cancelRefinement now requestId w)) evs)) (ae_process e)))"
proof -
  let ?r = "ae_process e"
  have g: "processes (snd (cancelGeneration now requestId w)) =
             (processes w)(?r := kill SIGTERM (processes w ?r))"
    and f: "processes (snd (cancelRefinement now requestId w)) =
             (processes w)(?r := kill SIGTERM (processes w ?r))"
    using cancel_present(5,6) [OF assms(1)] by simp_all
  have k: "cp_killed (kill SIGTERM (processes w ?r))"
    "cp_signals (kill SIGTERM (processes w ?r)) = cp_signals (processes w ?r) @ [SIGTERM]"
    using assms(2) by (simp_all add: kill_def)
  have kg: "cp_killed (processes (snd (a, snd (cancelGeneration now requestId w))) ?r) \<and>
      SIGKILL \<notin> set (cp_signals (processes (snd (a, snd (cancelGeneration now requestId w))) ?r))"
    using k assms(3) by (simp add: g)
  have kf: "cp_killed (processes (snd (a, snd (cancelRefinement now requestId w))) ?r) \<and>
      SIGKILL \<notin> set (cp_signals (processes (snd (a, snd (cancelRefinement now requestId w))) ?r))"
    using k assms(3) by (simp add: f)
  show ?thesis
    using run_keeps [OF kg, of evs] run_keeps [OF kf, of evs] cancel_present(7,8) [OF assms(1)] k
    by (simp add: g f)
qed

theorem cancel_never_sends_SIGKILL_witness:
  "SIGKILL \<notin> set (cp_signals (processes (snd (run
      (fst ex_started, snd (cancelGeneration 1040 ''req-1'' ex_registered))
      [(1540, KillTimerFired)])) 7)) \<and>
   cp_signals (processes (snd (run
      (fst ex_started, snd (cancelGeneration 1040 ''req-1'' ex_registered))
      [(1540, KillTimerFired)])) 7) = [SIGTERM] \<and>
   cp_running (processes (snd (run
      (fst ex_started, snd (cancelGeneration 1040 ''req-1'' ex_registered))
      [(1540, KillTimerFired)])) 7) \<and>
   kill_timers (snd (run
      (fst ex_started, snd (cancelGeneration 1040 ''req-1'' ex_registered))
      [(1540, KillTimerFired)])) = []"
proof -
  have reg: "activeProcesses ex_registered = [(''req-1'', \<lparr>ae_process = 7, ae_startTime = 1000\<rparr>)]"
    and procs: "processes ex_registered = (\<lambda>r. ex_child)"
    and timers: "kill_timers ex_registered = []"
    by (simp_all add: executeClaudeCodeCLI_start_def Let_def if_requestId_def log_def fun_eq_iff)
  have present: "map_get (activeProcesses ex_registered) ''req-1'' =
      Some \<lparr>ae_process = 7, ae_startTime = 1000\<rparr>"
    by (simp add: reg map_get_def)
  have 1: "SIGKILL \<notin> set (cp_signals (processes (snd (run
      (fst ex_started, snd (cancelGeneration 1040 ''req-1'' ex_registered))
      [(1540, KillTimerFired)])) 7))"
    using cancel_never_sends_SIGKILL [OF present, of 1040 "fst ex_started" "[(1540, KillTimerFired)]"]
    by (simp add: procs)
  have w': "processes (snd (cancelGeneration 1040 ''req-1'' ex_registered)) =
        (\<lambda>r. ex_child)(7 := kill SIGTERM ex_child)"
    "kill_timers (snd (cancelGeneration 1040 ''req-1'' ex_registered)) =
        [\<lparr>kt_delay = 500, kt_process = 7,
          kt_warning = ''Forcefully killed process for requestId: req-1''\<rparr>]"
    using cancel_present(5,7) [OF present, of 1040] by (simp_all add: procs timers)
  have 2: "cp_signals (processes (snd (run
      (fst ex_started, snd (cancelGeneration 1040 ''req-1'' ex_registered))
      [(1540, KillTimerFired)])) 7) = [SIGTERM] \<and>
   cp_running (processes (snd (run
      (fst ex_started, snd (cancelGeneration 1040 ''req-1'' ex_registered))
      [(1540, KillTimerFired)])) 7) \<and>
   kill_timers (snd (run
      (fst ex_started, snd (cancelGeneration 1040 ''req-1'' ex_registered))
      [(1540, KillTimerFired)])) = []"
    by (simp add: run_Cons run_Nil w' fire_kill_timer_def kill_def)
  from 1 2 show ?thesis by blast
qed

section \<open>Properties of the refinement service\<close>

lemma map_throwing_Inr:
  "(\<And>x. x \<in> set xs \<Longrightarrow> \<exists>y. f x = Inr y) \<Longrightarrow>
   \<exists>ys. map_throwing f xs = Inr ys \<and> list_all2 (\<lambda>x y. f x = Inr y) xs ys"
proof (induction xs)
  case Nil
  then show ?case by simp
next
  case (Cons x xs)
  obtain y where y: "f x = Inr y" using Cons.prems [of x] by auto
  obtain ys where ys: "map_throwing f xs = Inr ys" "list_all2 (\<lambda>x y. f x = Inr y) xs ys"
    using Cons.IH Cons.prems by auto
  show ?case by (simp add: y ys)
qed

text \<open>A callback that throws on no element of the array makes \<open>find\<close> the plain one.\<close>

lemma find_throwing_total:
  "(\<And>x. x \<in> set xs \<Longrightarrow> \<exists>b. p x = Inr b) \<Longrightarrow>
   find_throwing p xs = Inr (find (\<lambda>x. p x = Inr True) xs)"
proof (induction xs)
  case Nil
  then show ?case by simp
next
  case (Cons x xs)
  obtain b where b: "p x = Inr b" using Cons.prems [of x] by auto
  have "find_throwing p xs = Inr (find (\<lambda>x. p x = Inr True) xs)"
    using Cons.IH Cons.prems by auto
  then show ?case by (simp add: b)
qed

lemma skill_matches_value:
  "j \<noteq> JNull \<Longrightarrow>
   skill_matches (Some j) skill =
     Inr (json_get j ''name'' = Some (JStr (skill_name skill)) \<and>
          json_get j ''scope'' = Some (JStr (skill_scope skill)))"
  by (cases j) (simp_all add: skill_matches_def)

lemma skill_matches_total:
  assumes "d \<noteq> None" and "d \<noteq> Some JNull"
  shows "\<exists>b. skill_matches d skill = Inr b"
proof -
  from assms obtain j where "d = Some j" and "j \<noteq> JNull" by (cases d) auto
  then show ?thesis using skill_matches_value [of j skill] by blast
qed

lemma find_skill:
  assumes "availableSkills = [] \<or> (d \<noteq> None \<and> d \<noteq> Some JNull)"
  shows "find_throwing (skill_matches d) availableSkills =
           Inr (find (\<lambda>skill. skill_matches d skill = Inr True) availableSkills)"
proof (rule find_throwing_total)
  fix x assume "x \<in> set availableSkills"
  with assms have "d \<noteq> None" "d \<noteq> Some JNull" by auto
  then show "\<exists>b. skill_matches d x = Inr b" by (rule skill_matches_total)
qed

lemma resolve_node_other: "wn_type node \<noteq> ''skill'' \<Longrightarrow> resolve_node skills node = Inr node"
  by (simp add: resolve_node_def)

lemma resolve_node_skill:
  assumes "wn_type node = ''skill''"
    and "skills = [] \<or> (wn_data node \<noteq> None \<and> wn_data node \<noteq> Some JNull)"
  shows "resolve_node skills node =
     Inr (node\<lparr>wn_data := Some (JObj
       (case find (\<lambda>skill. skill_matches (wn_data node) skill = Inr True) skills of
          Some matchedSkill \<Rightarrow>
            map_set (map_set (spread_data (wn_data node)) ''skillPath''
                (JStr (skill_skillPath matchedSkill)))
              ''validationStatus'' (JStr (skill_validationStatus matchedSkill))
        | None \<Rightarrow> map_set (spread_data (wn_data node)) ''validationStatus'' (JStr ''missing'')))\<rparr>)"
  using assms(1) by (simp add: resolve_node_def Let_def find_skill [OF assms(2)] split: option.splits)

lemma resolveSkillPaths_nodes:
  assumes "\<forall>node \<in> set (wf_nodes w). wn_type node = ''skill'' \<longrightarrow>
             skills = [] \<or> (wn_data node \<noteq> None \<and> wn_data node \<noteq> Some JNull)"
  shows "\<exists>resolved. resolveSkillPaths w skills = Inr (w\<lparr>wf_nodes := resolved\<rparr>) \<and>
           list_all2 (\<lambda>node out. resolve_node skills node = Inr out \<and>
              (wn_type node = ''skill'' \<longrightarrow>
                 skills = [] \<or> (wn_data node \<noteq> None \<and> wn_data node \<noteq> Some JNull)))
             (wf_nodes w) resolved"
proof -
  have "\<exists>y. resolve_node skills node = Inr y" if "node \<in> set (wf_nodes w)" for node
  proof (cases "wn_type node = ''skill''")
    case True
    with assms that have "skills = [] \<or> (wn_data node \<noteq> None \<and> wn_data node \<noteq> Some JNull)"
      by blast
    from resolve_node_skill [OF True this] show ?thesis by blast
  next
    case False
    then show ?thesis by (simp add: resolve_node_other)
  qed
  from map_throwing_Inr [of "wf_nodes w" "resolve_node skills", OF this]
  obtain ys where ys: "map_throwing (resolve_node skills) (wf_nodes w) = Inr ys"
    and l: "list_all2 (\<lambda>x y. resolve_node skills x = Inr y) (wf_nodes w) ys" by blast
  have "list_all2 (\<lambda>node out. resolve_node skills node = Inr out \<and>
              (wn_type node = ''skill'' \<longrightarrow>
                 skills = [] \<or> (wn_data node \<noteq> None \<and> wn_data node \<noteq> Some JNull)))
             (wf_nodes w) ys"
    using l assms by (auto simp: list_all2_conv_all_nth)
  with ys show ?thesis by (auto simp: resolveSkillPaths_def)
qed

text \<open>
  Claim C3, as the code has it. Let no skill node have an absent or null payload, unless
  the catalogue is empty. Then the resolver returns a workflow (it never fails because a
  skill is missing) whose nodes correspond one to one to the given ones: a node of another
  type is unchanged; a skill node whose (name, scope) is matched gets the path and the
  validation status of the first matching catalogue entry, whatever that status is; a
  skill node that no entry matches gets the status \<open>missing\<close> and keeps every other
  property, its path included.
\<close>

theorem resolveSkillPaths_stamps:
  assumes "\<forall>node \<in> set (wf_nodes w). wn_type node = ''skill'' \<longrightarrow>
             availableSkills = [] \<or> (wn_data node \<noteq> None \<and> wn_data node \<noteq> Some JNull)"
  shows "\<exists>resolved. resolveSkillPaths w availableSkills = Inr (w\<lparr>wf_nodes := resolved\<rparr>) \<and>
           list_all2
             (\<lambda>node out.
                (wn_type node \<noteq> ''skill'' \<longrightarrow> out = node) \<and>
                (wn_type node = ''skill'' \<longrightarrow>
                   (\<forall>matchedSkill.
                      find (\<lambda>skill. skill_matches (wn_data node) skill = Inr True)
                        availableSkills = Some matchedSkill \<longrightarrow>
                      out = node\<lparr>wn_data := Some (JObj
                        (map_set
                           (map_set (spread_data (wn_data node)) ''skillPath''
                              (JStr (skill_skillPath matchedSkill)))
                           ''validationStatus'' (JStr (skill_validationStatus matchedSkill))))\<rparr>) \<and>
                   ((\<forall>skill \<in> set availableSkills.
                       skill_matches (wn_data node) skill \<noteq> Inr True) \<longrightarrow>
                      out = node\<lparr>wn_data := Some (JObj
                        (map_set (spread_data (wn_data node)) ''validationStatus''
                           (JStr ''missing'')))\<rparr>)))
             (wf_nodes w) resolved"
    (is "\<exists>resolved. _ \<and> list_all2 ?stamped _ resolved")
proof -
  from resolveSkillPaths_nodes [OF assms]
  obtain resolved where r: "resolveSkillPaths w availableSkills = Inr (w\<lparr>wf_nodes := resolved\<rparr>)"
    and l: "list_all2 (\<lambda>node out. resolve_node availableSkills node = Inr out \<and>
              (wn_type node = ''skill'' \<longrightarrow>
                 availableSkills = [] \<or> (wn_data node \<noteq> None \<and> wn_data node \<noteq> Some JNull)))
             (wf_nodes w) resolved"
    by blast
  have "?stamped node out"
    if ro: "resolve_node availableSkills node = Inr out \<and>
              (wn_type node = ''skill'' \<longrightarrow>
                 availableSkills = [] \<or> (wn_data node \<noteq> None \<and> wn_data node \<noteq> Some JNull))"
    for node out
  proof (intro conjI impI allI)
    assume "wn_type node \<noteq> ''skill''"
    with ro show "out = node" by (simp add: resolve_node_other)
  next
    fix matchedSkill
    assume sk: "wn_type node = ''skill''"
      and "find (\<lambda>skill. skill_matches (wn_data node) skill = Inr True) availableSkills =
             Some matchedSkill"
    with ro resolve_node_skill [OF sk, of availableSkills]
    show "out = node\<lparr>wn_data := Some (JObj
            (map_set
               (map_set (spread_data (wn_data node)) ''skillPath''
                  (JStr (skill_skillPath matchedSkill)))
               ''validationStatus'' (JStr (skill_validationStatus matchedSkill))))\<rparr>"
      by simp
  next
    assume sk: "wn_type node = ''skill''"
      and "\<forall>skill \<in> set availableSkills. skill_matches (wn_data node) skill \<noteq> Inr True"
    then have "find (\<lambda>skill. skill_matches (wn_data node) skill = Inr True) availableSkills = None"
      by (simp add: find_None_iff)
    with ro sk resolve_node_skill [OF sk, of availableSkills]
    show "out = node\<lparr>wn_data := Some (JObj
            (map_set (spread_data (wn_data node)) ''validationStatus'' (JStr ''missing'')))\<rparr>"
      by simp
  qed
  with l have "list_all2 ?stamped (wf_nodes w) resolved"
    by (rule list_all2_mono)
  with r show ?thesis by blast
qed

theorem resolveSkillPaths_stamps_witness:
  "resolveSkillPaths
     (ex_workflow ''A'' [ex_wf_start, ex_skill_node ''k1'' ''lint'' ''project'',
        ex_skill_node ''k2'' ''format'' ''project''] [])
     [ex_skill_stale, ex_skill_lint] =
   Inr (ex_workflow ''A''
     [ex_wf_start,
      (ex_skill_node ''k1'' ''lint'' ''project'')\<lparr>wn_data := Some (JObj
         [(''name'', JStr ''lint''), (''scope'', JStr ''project''), (''outputPorts'', JNum 1),
          (''skillPath'', JStr ''/ws/.claude/skills/lint/SKILL.md''),
          (''validationStatus'', JStr ''valid'')])\<rparr>,
      (ex_skill_node ''k2'' ''format'' ''project'')\<lparr>wn_data := Some (JObj
         [(''name'', JStr ''format''), (''scope'', JStr ''project''), (''outputPorts'', JNum 1),
          (''validationStatus'', JStr ''missing'')])\<rparr>] []) \<and>
   resolveSkillPaths (ex_workflow ''A'' [ex_skill_node_no_data] []) [] =
   Inr (ex_workflow ''A''
     [ex_skill_node_no_data\<lparr>wn_data := Some (JObj [(''validationStatus'', JStr ''missing'')])\<rparr>]
     [])"
proof -
  have 1: "resolveSkillPaths
     (ex_workflow ''A'' [ex_wf_start, ex_skill_node ''k1'' ''lint'' ''project'',
        ex_skill_node ''k2'' ''format'' ''project''] [])
     [ex_skill_stale, ex_skill_lint] =
   Inr (ex_workflow ''A''
     [ex_wf_start,
      (ex_skill_node ''k1'' ''lint'' ''project'')\<lparr>wn_data := Some (JObj
         [(''name'', JStr ''lint''), (''scope'', JStr ''project''), (''outputPorts'', JNum 1),
          (''skillPath'', JStr ''/ws/.claude/skills/lint/SKILL.md''),
          (''validationStatus'', JStr ''valid'')])\<rparr>,
      (ex_skill_node ''k2'' ''format'' ''project'')\<lparr>wn_data := Some (JObj
         [(''name'', JStr ''format''), (''scope'', JStr ''project''), (''outputPorts'', JNum 1),
          (''validationStatus'', JStr ''missing'')])\<rparr>] [])"
    using resolveSkillPaths_stamps [of
      "ex_workflow ''A'' [ex_wf_start, ex_skill_node ''k1'' ''lint'' ''project'',
        ex_skill_node ''k2'' ''format'' ''project''] []"
      "[ex_skill_stale, ex_skill_lint]"]
    by (auto simp: list_all2_Cons1 skill_matches_def spread_data_def)
  have 2: "resolveSkillPaths (ex_workflow ''A'' [ex_skill_node_no_data] []) [] =
   Inr (ex_workflow ''A''
     [ex_skill_node_no_data\<lparr>wn_data := Some (JObj [(''validationStatus'', JStr ''missing'')])\<rparr>]
     [])"
    using resolveSkillPaths_stamps [of "ex_workflow ''A'' [ex_skill_node_no_data] []" "[]"]
    by (auto simp: list_all2_Cons1 spread_data_def)
  from 1 2 show ?thesis by blast
qed

text \<open>
  Claim C3 as stated fails twice: a matching catalogue entry whose own status is
  \<open>missing\<close> stamps \<open>missing\<close>, not \<open>valid\<close>, together with its path; and a skill node
  without a payload makes the resolver throw as soon as the catalogue has an entry to
  compare it with.
\<close>

theorem resolveSkillPaths_status_counterexample:
  "resolveSkillPaths (ex_workflow ''A'' [ex_skill_node ''k1'' ''deploy'' ''personal''] [])
     [ex_skill_stale, ex_skill_lint] =
   Inr (ex_workflow ''A''
     [(ex_skill_node ''k1'' ''deploy'' ''personal'')\<lparr>wn_data := Some (JObj
         [(''name'', JStr ''deploy''), (''scope'', JStr ''personal''), (''outputPorts'', JNum 1),
          (''skillPath'', JStr ''/home/u/.claude/skills/deploy/SKILL.md''),
          (''validationStatus'', JStr ''missing'')])\<rparr>] []) \<and>
   JStr ''missing'' \<noteq> JStr ''valid'' \<and>
   resolveSkillPaths (ex_workflow ''A'' [ex_skill_node_no_data] []) [ex_skill_lint] =
   Inl (cannot_read ''undefined'' ''name'')"
  by (simp add: resolveSkillPaths_def resolve_node_def skill_matches_def spread_data_def)

lemma join_contains: "x \<in> set xs \<Longrightarrow> \<exists>pre post. join sep xs = pre @ x @ post"
proof (induction sep xs rule: join.induct)
  case (1 sep)
  then show ?case by simp
next
  case (2 sep y)
  then have "join sep [y] = [] @ x @ []" by simp
  then show ?case by blast
next
  case (3 sep y z zs)
  show ?case
  proof (cases "x = y")
    case True
    then have "join sep (y # z # zs) = [] @ x @ (sep @ join sep (z # zs))" by simp
    then show ?thesis by blast
  next
    case False
    with 3 obtain pre post where "join sep (z # zs) = pre @ x @ post" by auto
    then have "join sep (y # z # zs) = (y @ sep @ pre) @ x @ post" by simp
    then show ?thesis by blast
  qed
qed

lemma refineSubAgentFlow_validation:
  assumes "schema_success schemaResult" and "\<not> json_falsy (schema_value schemaResult)"
    and "res_success cliResult" and "res_output cliResult = Some output" and "output \<noteq> []"
    and "\<not> isClarificationMessage output"
    and "parseClaudeCodeOutput JSON_parse output = Some parsed"
    and "pi_nodes parsed = Some ns" and "pi_connections parsed = Some cs"
    and "\<not> nv_valid (validateSubAgentFlowNodes \<lparr>iw_nodes = ns, iw_connections = cs\<rparr>)"
  shows "refineSubAgentFlow JSON_parse schemaResult skillsResult cliResult useSkills startTime now =
           subagent_error PROHIBITED_NODE_TYPE
             ''Sub-Agent Flow cannot contain SubAgent, SubAgentFlow, or AskUserQuestion nodes''
             (Some (''Prohibited nodes found: '' @ join '', ''
                (nv_prohibitedNodes
                   (validateSubAgentFlowNodes \<lparr>iw_nodes = ns, iw_connections = cs\<rparr>))))
             (res_executionTimeMs cliResult)"
  using assms by (simp add: refineSubAgentFlow_def Let_def)

text \<open>
  Claim C2. When the reply of the tool is parsed into a fragment with nodes and
  connections, and one of the nodes has a prohibited type, \<open>refineSubAgentFlow\<close> returns
  the error \<open>PROHIBITED_NODE_TYPE\<close> whose details list every prohibited node as
  \<open>type (id)\<close>, that node among them, whatever the other nodes are.
\<close>

theorem prohibited_node_rejected:
  assumes "schema_success schemaResult" and "\<not> json_falsy (schema_value schemaResult)"
    and "res_success cliResult" and "res_output cliResult = Some output" and "output \<noteq> []"
    and "\<not> isClarificationMessage output"
    and "parseClaudeCodeOutput JSON_parse output = Some parsed"
    and "pi_nodes parsed = Some ns" and "pi_connections parsed = Some cs"
    and "node \<in> set ns" and "wn_type node \<in> set SUBAGENTFLOW_PROHIBITED_NODE_TYPES"
  shows "refineSubAgentFlow JSON_parse schemaResult skillsResult cliResult useSkills startTime now =
           \<lparr>sr_success = False, sr_refinedInnerWorkflow = None, sr_clarificationMessage = None,
            sr_error = Some
              \<lparr>err_code = PROHIBITED_NODE_TYPE,
               err_message =
                 ''Sub-Agent Flow cannot contain SubAgent, SubAgentFlow, or AskUserQuestion nodes'',
               err_details = Some (''Prohibited nodes found: '' @ join '', ''
                 (map (\<lambda>n. wn_type n @ '' ('' @ wn_id n @ '')'')
                    (filter (\<lambda>n. wn_type n \<in> set SUBAGENTFLOW_PROHIBITED_NODE_TYPES) ns)))\<rparr>,
            sr_executionTimeMs = res_executionTimeMs cliResult\<rparr> \<and>
         (\<exists>pre post.
            join '', '' (map (\<lambda>n. wn_type n @ '' ('' @ wn_id n @ '')'')
              (filter (\<lambda>n. wn_type n \<in> set SUBAGENTFLOW_PROHIBITED_NODE_TYPES) ns)) =
            pre @ (wn_type node @ '' ('' @ wn_id node @ '')'') @ post)"
proof -
  let ?offenders = "map (\<lambda>n. wn_type n @ '' ('' @ wn_id n @ '')'')
      (filter (\<lambda>n. wn_type n \<in> set SUBAGENTFLOW_PROHIBITED_NODE_TYPES) ns)"
  have v: "validateSubAgentFlowNodes \<lparr>iw_nodes = ns, iw_connections = cs\<rparr> =
      \<lparr>nv_valid = (length ?offenders = 0), nv_prohibitedNodes = ?offenders\<rparr>"
    by (simp add: validateSubAgentFlowNodes_def Let_def)
  have mem: "wn_type node @ '' ('' @ wn_id node @ '')'' \<in> set ?offenders"
    using assms(10,11) by force
  then have "?offenders \<noteq> []" by (metis empty_iff list.set(1))
  then have "\<not> nv_valid (validateSubAgentFlowNodes \<lparr>iw_nodes = ns, iw_connections = cs\<rparr>)"
    by (simp add: v)
  from refineSubAgentFlow_validation [OF assms(1-9) this, of skillsResult useSkills startTime now]
  have "refineSubAgentFlow JSON_parse schemaResult skillsResult cliResult useSkills startTime now =
           \<lparr>sr_success = False, sr_refinedInnerWorkflow = None, sr_clarificationMessage = None,
            sr_error = Some
              \<lparr>err_code = PROHIBITED_NODE_TYPE,
               err_message =
                 ''Sub-Agent Flow cannot contain SubAgent, SubAgentFlow, or AskUserQuestion nodes'',
               err_details = Some (''Prohibited nodes found: '' @ join '', '' ?offenders)\<rparr>,
            sr_executionTimeMs = res_executionTimeMs cliResult\<rparr>"
    by (simp add: v subagent_error_def)
  moreover from join_contains [OF mem, of "'', ''"]
  have "\<exists>pre post. join '', '' ?offenders =
          pre @ (wn_type node @ '' ('' @ wn_id node @ '')'') @ post" .
  ultimately show ?thesis by blast
qed

lemma isClarificationMessage_empty: "\<not> isClarificationMessage []"
  by (simp add: isClarificationMessage_def clarificationPatterns_def)

text \<open>
  Claim C4. When a clarification pattern matches the reply without its fenced JSON
  blocks, the reply is a clarification and \<open>refineWorkflow\<close> returns the clarification
  result, the same for every parser and validator: the reply is never parsed.
\<close>

theorem clarification_skips_parsing:
  assumes "schema_success schemaResult" and "\<not> json_falsy (schema_value schemaResult)"
    and "res_success cliResult" and "res_output cliResult = Some output"
    and "list_ex (\<lambda>pattern. rx_test pattern (strip_json_fences output)) clarificationPatterns"
  shows "isClarificationMessage output \<and>
         refineWorkflow JSON_parse validateAIGeneratedWorkflow schemaResult skillsResult cliResult
           useSkills startTime now =
           \<lparr>rr_success = True, rr_refinedWorkflow = None,
            rr_clarificationMessage = Some (extractClarificationMessage output),
            rr_error = None, rr_executionTimeMs = res_executionTimeMs cliResult\<rparr>"
proof -
  have c: "isClarificationMessage output"
    using assms(5) by (simp add: isClarificationMessage_def)
  then have "output \<noteq> []" using isClarificationMessage_empty by auto
  with c assms(1-4) show ?thesis
    by (simp add: refineWorkflow_def Let_def)
qed

lemma ex_reply_matches:
  "list_ex (\<lambda>pattern. rx_test pattern (strip_json_fences ex_reply)) clarificationPatterns"
  by code_simp

lemma ex_reply_parses:
  "parseClaudeCodeOutput ex_parse_workflow ex_reply =
     Some \<lparr>pw_id = Some ''w'', pw_name = ''A'', pw_version = ''1.0.0'', pw_nodes = Some [],
           pw_connections = Some []\<rparr>"
  by code_simp

lemma ex_reply_message: "extractClarificationMessage ex_reply = ''Which approach do you prefer?''"
  by code_simp

theorem clarification_skips_parsing_witness:
  "parseClaudeCodeOutput ex_parse_workflow ex_reply =
     Some \<lparr>pw_id = Some ''w'', pw_name = ''A'', pw_version = ''1.0.0'', pw_nodes = Some [],
           pw_connections = Some []\<rparr> \<and>
   refineWorkflow ex_parse_workflow ex_validate ex_schema ex_scan (ex_cli ex_reply) True 0 1300 =
     \<lparr>rr_success = True, rr_refinedWorkflow = None,
      rr_clarificationMessage = Some ''Which approach do you prefer?'',
      rr_error = None, rr_executionTimeMs = 1200\<rparr>"
proof -
  have "refineWorkflow ex_parse_workflow ex_validate ex_schema ex_scan (ex_cli ex_reply) True 0 1300 =
     \<lparr>rr_success = True, rr_refinedWorkflow = None,
      rr_clarificationMessage = Some (extractClarificationMessage ex_reply),
      rr_error = None, rr_executionTimeMs = res_executionTimeMs (ex_cli ex_reply)\<rparr>"
    using clarification_skips_parsing [of ex_schema "ex_cli ex_reply" ex_reply ex_parse_workflow
        ex_validate ex_scan True 0 1300, OF _ _ _ _ ex_reply_matches]
    by simp
  then show ?thesis
    by (simp only: ex_reply_message ex_reply_parses) simp
qed

lemma ex_inner_not_clarification: "\<not> isClarificationMessage ex_inner_json"
  by code_simp

lemma ex_inner_parses:
  "parseClaudeCodeOutput ex_parse_inner ex_inner_json =
     Some \<lparr>pi_nodes = Some [ex_bare_start, ex_question], pi_connections = Some []\<rparr>"
  by code_simp

theorem prohibited_node_rejected_witness:
  "refineSubAgentFlow ex_parse_inner ex_schema ex_scan (ex_cli ex_inner_json) True 0 1300 =
     \<lparr>sr_success = False, sr_refinedInnerWorkflow = None, sr_clarificationMessage = None,
      sr_error = Some
        \<lparr>err_code = PROHIBITED_NODE_TYPE,
         err_message =
           ''Sub-Agent Flow cannot contain SubAgent, SubAgentFlow, or AskUserQuestion nodes'',
         err_details = Some ''Prohibited nodes found: askUserQuestion (q1)''\<rparr>,
      sr_executionTimeMs = 1200\<rparr>"
proof -
  have ne: "ex_inner_json \<noteq> []" by simp
  have ty: "wn_type ex_question \<in> set SUBAGENTFLOW_PROHIBITED_NODE_TYPES"
    by (simp add: SUBAGENTFLOW_PROHIBITED_NODE_TYPES_def)
  from prohibited_node_rejected [of ex_schema "ex_cli ex_inner_json" ex_inner_json ex_parse_inner
      "\<lparr>pi_nodes = Some [ex_bare_start, ex_question], pi_connections = Some []\<rparr>"
      "[ex_bare_start, ex_question]" "[]" ex_question ex_scan True 0 1300,
      OF _ _ _ _ ne ex_inner_not_clarification ex_inner_parses _ _ _ ty]
  show ?thesis
    by (simp add: SUBAGENTFLOW_PROHIBITED_NODE_TYPES_def)
qed

end
